theory Spec2Isabelle
  imports Main "HOL-Library.Sublist" "HOL-Library.Signed_Division"
begin

section \<open>Movie catalogue backend: a shallow embedding\<close>

text \<open>
  The Go services, repositories and handlers of the movie backend are written here as
  HOL functions. A Go function that returns \<open>(value, error)\<close> returns a sum
  (\<open>Inl\<close> the error text, \<open>Inr\<close> the value); a function that returns only an
  \<open>error\<close> returns an \<open>error option\<close>. The relational store, the object store and
  the TMDB endpoint are external: their state is the record \<open>world\<close>, every call to one
  of them is numbered, and the record \<open>env\<close> says which numbered calls fail, what the
  clock reads and what TMDB answers.
\<close>

subsection \<open>Strings and integers of the Go runtime\<close>

type_synonym error = string

text \<open>Go's \<open>int\<close> and \<open>int64\<close> are 64-bit two's complement; \<open>wrap64\<close> is the
  wrap-around of their arithmetic.\<close>

definition wrap64 :: "int \<Rightarrow> int" where
  "wrap64 x = (x + 2 ^ 63) mod 2 ^ 64 - 2 ^ 63"

definition is_digit :: "char \<Rightarrow> bool" where
  "is_digit c = (c \<in> set ''0123456789'')"

definition digit_val :: "char \<Rightarrow> int" where
  "digit_val c = of_char c - 48"

definition digits_val :: "string \<Rightarrow> int" where
  "digits_val s = foldl (\<lambda>acc c. acc * 10 + digit_val c) 0 s"

text \<open>\<open>strconv.Itoa\<close> / the \<open>%d\<close> verb: decimal digits, a minus sign for negatives.\<close>

fun nat_digits :: "nat \<Rightarrow> string" where
  "nat_digits n =
     (if n < 10 then [char_of (48 + n)]
      else nat_digits (n div 10) @ [char_of (48 + n mod 10)])"

declare nat_digits.simps [simp del]

definition Itoa :: "int \<Rightarrow> string" where
  "Itoa i = (if i < 0 then CHR ''-'' # nat_digits (nat (- i)) else nat_digits (nat i))"

text \<open>\<open>strconv.Atoi\<close>: an optional sign, then one or more decimal digits. A syntax
  error gives value 0; a value outside the 64-bit range gives the nearest bound. The
  second component says whether an error is returned with the value.\<close>

definition Atoi :: "string \<Rightarrow> int \<times> bool" where
  "Atoi s =
     (let neg = (s \<noteq> [] \<and> hd s = CHR ''-'');
          body = (if s \<noteq> [] \<and> (hd s = CHR ''+'' \<or> hd s = CHR ''-'') then tl s else s)
      in if body = [] \<or> \<not> list_all is_digit body then (0, True)
         else let v = (if neg then - digits_val body else digits_val body)
              in if v > 2 ^ 63 - 1 then (2 ^ 63 - 1, True)
                 else if v < - (2 ^ 63) then (- (2 ^ 63), True)
                 else (v, False))"

text \<open>\<open>strconv.ParseUint(s, 10, 32)\<close>: digits only, no sign, at most \<open>2^32 - 1\<close>.\<close>

definition ParseUint32 :: "string \<Rightarrow> nat option" where
  "ParseUint32 s =
     (if s = [] \<or> \<not> list_all is_digit s then None
      else if digits_val s > 2 ^ 32 - 1 then None
      else Some (nat (digits_val s)))"

text \<open>\<open>strings.Contains\<close>, \<open>strings.Split\<close> on a one-character separator,
  \<open>strings.TrimPrefix\<close> and \<open>strings.Index\<close> of one character.\<close>

fun Contains :: "string \<Rightarrow> string \<Rightarrow> bool" where
  "Contains [] sub = (sub = [])"
| "Contains (c # cs) sub = (prefix sub (c # cs) \<or> Contains cs sub)"

fun Split :: "string \<Rightarrow> char \<Rightarrow> string list" where
  "Split [] sep = [[]]"
| "Split (c # cs) sep =
     (if c = sep then [] # Split cs sep
      else (case Split cs sep of p # ps \<Rightarrow> (c # p) # ps | [] \<Rightarrow> [[c]]))"

definition TrimPrefix :: "string \<Rightarrow> string \<Rightarrow> string" where
  "TrimPrefix s p = (if prefix p s then drop (length p) s else s)"

fun Index :: "string \<Rightarrow> char \<Rightarrow> int" where
  "Index [] c = - 1"
| "Index (x # xs) c =
     (if x = c then 0 else (let i = Index xs c in if i = - 1 then - 1 else i + 1))"

subsection \<open>Models (internal/models)\<close>

text \<open>Instants of \<open>time.Time\<close> are natural numbers; 0 is Go's zero time. A
  \<open>float64\<close> is only ever copied from a payload into a row and never computed
  with, so it is carried as the integer its 64 bits spell.\<close>

type_synonym time = nat
type_synonym float64 = int

record language =
  lang_id :: nat
  lang_code :: string
  lang_name :: string
  lang_created_at :: time
  lang_updated_at :: time

record genre =
  genre_id :: nat
  genre_tmdb_id :: int
  genre_name :: string
  genre_created_at :: time
  genre_updated_at :: time

text \<open>\<open>models.Movie\<close>. The pointer field \<open>Language\<close> (filled only by a preload and
  read nowhere in the functions below) is left out; \<open>m_genres\<close> is the \<open>Genres\<close>
  association, which the ORM keeps in the join table \<open>movie_genres\<close> and not in the
  row.\<close>

record movie =
  m_id :: nat
  m_tmdb_id :: int
  m_title :: string
  m_original_title :: string
  m_overview :: string
  m_release_date :: string
  m_poster_path :: string
  m_backdrop_path :: string
  m_vote_average :: float64
  m_vote_count :: int
  m_popularity :: float64
  m_adult :: bool
  m_language_id :: "nat option"
  m_genres :: "genre list"
  m_created_at :: time
  m_updated_at :: time

record tmdb_movie =
  t_id :: int
  t_title :: string
  t_original_title :: string
  t_overview :: string
  t_release_date :: string
  t_poster_path :: string
  t_backdrop_path :: string
  t_vote_average :: float64
  t_vote_count :: int
  t_popularity :: float64
  t_adult :: bool
  t_original_language :: string
  t_genre_ids :: "int list"

record sync_log =
  sl_id :: nat
  sl_sync_type :: string
  sl_status :: string
  sl_movies_added :: int
  sl_movies_updated :: int
  sl_error_message :: string
  sl_synced_at :: time
  sl_created_at :: time

record column_chart_data =
  cc_label :: string
  cc_count :: int

subsection \<open>Response envelope and pagination (internal/utils)\<close>

record pagination_meta =
  pm_page :: int
  pm_limit :: int
  pm_total :: int
  pm_total_pages :: int
  pm_has_next :: bool
  pm_has_previous :: bool

datatype payload =
    NoData
  | MovieData movie
  | MovieList "movie list"
  | SyncLogData sync_log
  | ChartData "column_chart_data list"

record response =
  http_status :: int
  r_status :: string
  r_message :: string
  r_data :: payload
  r_meta :: "pagination_meta option"

definition SuccessResponse :: "int \<Rightarrow> string \<Rightarrow> payload \<Rightarrow> response" where
  "SuccessResponse c msg d =
     \<lparr>http_status = c, r_status = ''success'', r_message = msg, r_data = d, r_meta = None\<rparr>"

definition SuccessWithMetaResponse ::
  "int \<Rightarrow> string \<Rightarrow> payload \<Rightarrow> pagination_meta \<Rightarrow> response" where
  "SuccessWithMetaResponse c msg d meta =
     \<lparr>http_status = c, r_status = ''success'', r_message = msg, r_data = d,
      r_meta = Some meta\<rparr>"

definition ErrorResponse :: "int \<Rightarrow> string \<Rightarrow> response" where
  "ErrorResponse c msg =
     \<lparr>http_status = c, r_status = (if c \<ge> 500 then ''fail'' else ''error''),
      r_message = msg, r_data = NoData, r_meta = None\<rparr>"

definition ErrorWithDataResponse :: "int \<Rightarrow> string \<Rightarrow> payload \<Rightarrow> response" where
  "ErrorWithDataResponse c msg d =
     \<lparr>http_status = c, r_status = (if c \<ge> 500 then ''fail'' else ''error''),
      r_message = msg, r_data = d, r_meta = None\<rparr>"

text \<open>A Go integer division by zero is a run-time panic; the quotient of two
  \<open>int64\<close> truncates towards zero (\<open>sdiv\<close>) and wraps.\<close>

datatype panic = DivideByZero

definition CreatePaginationMeta :: "int \<Rightarrow> int \<Rightarrow> int \<Rightarrow> panic + pagination_meta" where
  "CreatePaginationMeta page limit count =
     (if limit = 0 then Inl DivideByZero
      else
        let q = wrap64 (wrap64 (wrap64 (count + limit) - 1) sdiv limit);
            totalPages = (if q = 0 then 1 else q)
        in Inr \<lparr>pm_page = page, pm_limit = limit, pm_total = count,
                pm_total_pages = totalPages, pm_has_next = (page < totalPages),
                pm_has_previous = (page > 1)\<rparr>)"


subsection \<open>The outside world\<close>

text \<open>
  The tables of the relational store are lists of rows in insertion order; each table
  has a sequence that hands out primary keys. \<open>objects\<close> is the set of keys in the
  bucket of the object store. \<open>calls\<close> counts the calls made so far to the store, the
  object store and TMDB, and \<open>effects\<close> records what those calls changed or asked.
\<close>

datatype effect =
    FetchPage int
  | MovieInserted nat
  | MovieSaved nat
  | MovieDeleted nat
  | LogInserted nat
  | ObjectRemoved string

record world =
  movies :: "movie list"
  languages :: "language list"
  genres :: "genre list"
  movie_genres :: "(nat \<times> nat) list"
  sync_logs :: "sync_log list"
  movie_seq :: nat
  language_seq :: nat
  genre_seq :: nat
  log_seq :: nat
  objects :: "string set"
  calls :: nat
  effects :: "effect list"

text \<open>
  What the program cannot decide: \<open>fetch_page e p\<close> is TMDB's answer for page \<open>p\<close>
  (the decoded results, or the text of the error that \<open>fetchPopularMoviesFromTMDB\<close>
  returns); \<open>fault e n\<close> is the error, if any, with which the \<open>n\<close>-th call to the
  relational store or the object store fails; \<open>now e n\<close> is the clock at that call.
\<close>

record env =
  fetch_page :: "int \<Rightarrow> error + tmdb_movie list"
  fault :: "nat \<Rightarrow> error option"
  now :: "nat \<Rightarrow> time"

definition tick :: "world \<Rightarrow> world" where
  "tick w = w\<lparr>calls := calls w + 1\<rparr>"

subsection \<open>Language and genre repositories\<close>

definition langRepo_FindByCode ::
  "env \<Rightarrow> string \<Rightarrow> world \<Rightarrow> (error + language option) \<times> world" where
  "langRepo_FindByCode e c w =
     (case fault e (calls w) of
        Some err \<Rightarrow> (Inl err, tick w)
      | None \<Rightarrow> (Inr (find (\<lambda>l. lang_code l = c) (languages w)), tick w))"

definition langRepo_FindOrCreate ::
  "env \<Rightarrow> string \<Rightarrow> string \<Rightarrow> world \<Rightarrow> (error + language) \<times> world" where
  "langRepo_FindOrCreate e c name w =
     (case fault e (calls w) of
        Some err \<Rightarrow> (Inl err, tick w)
      | None \<Rightarrow>
          (case find (\<lambda>l. lang_code l = c) (languages w) of
             Some l \<Rightarrow> (Inr l, tick w)
           | None \<Rightarrow>
               let l = \<lparr>lang_id = language_seq w + 1, lang_code = c, lang_name = name,
                        lang_created_at = now e (calls w),
                        lang_updated_at = now e (calls w)\<rparr>
               in (Inr l, tick (w\<lparr>languages := languages w @ [l],
                                   language_seq := language_seq w + 1\<rparr>))))"

definition genreRepo_FindOrCreate ::
  "env \<Rightarrow> int \<Rightarrow> string \<Rightarrow> world \<Rightarrow> (error + genre) \<times> world" where
  "genreRepo_FindOrCreate e tmdbID name w =
     (case fault e (calls w) of
        Some err \<Rightarrow> (Inl err, tick w)
      | None \<Rightarrow>
          (case find (\<lambda>g. genre_tmdb_id g = tmdbID) (genres w) of
             Some g \<Rightarrow> (Inr g, tick w)
           | None \<Rightarrow>
               let g = \<lparr>genre_id = genre_seq w + 1, genre_tmdb_id = tmdbID,
                        genre_name = name, genre_created_at = now e (calls w),
                        genre_updated_at = now e (calls w)\<rparr>
               in (Inr g, tick (w\<lparr>genres := genres w @ [g],
                                   genre_seq := genre_seq w + 1\<rparr>))))"

subsection \<open>Movie repository\<close>

text \<open>
  \<open>Create\<close> and \<open>Save\<close> of the ORM write the columns of the row and, for each genre of
  the struct, a row of the join table unless it is there already; they never remove a
  join row. \<open>tmdb_id\<close> carries a unique index (\<open>gorm:"uniqueIndex"\<close>): a write that
  would give two rows the same value fails. The result of a write is the struct as the
  ORM leaves it (key and timestamps filled in).
\<close>

definition link_genres :: "nat \<Rightarrow> genre list \<Rightarrow> (nat \<times> nat) list \<Rightarrow> (nat \<times> nat) list" where
  "link_genres mid gs links =
     fold (\<lambda>g ls. if (mid, genre_id g) \<in> set ls then ls else ls @ [(mid, genre_id g)])
       gs links"

definition duplicate_key :: error where
  "duplicate_key = ''duplicate key value violates unique constraint''"

text \<open>Both callers of \<open>Create\<close> pass a struct whose \<open>ID\<close> is zero, so the key always
  comes from the sequence.\<close>

definition repo_Create :: "env \<Rightarrow> movie \<Rightarrow> world \<Rightarrow> (error + movie) \<times> world" where
  "repo_Create e m w =
     (case fault e (calls w) of
        Some err \<Rightarrow> (Inl err, tick w)
      | None \<Rightarrow>
          if list_ex (\<lambda>r. m_tmdb_id r = m_tmdb_id m) (movies w)
          then (Inl duplicate_key, tick w)
          else
            let t = now e (calls w);
                m' = m\<lparr>m_id := movie_seq w + 1,
                       m_created_at := (if m_created_at m = 0 then t else m_created_at m),
                       m_updated_at := (if m_updated_at m = 0 then t else m_updated_at m)\<rparr>
            in (Inr m',
                tick (w\<lparr>movies := movies w @ [m'\<lparr>m_genres := []\<rparr>],
                        movie_genres := link_genres (m_id m') (m_genres m) (movie_genres w),
                        movie_seq := movie_seq w + 1,
                        effects := effects w @ [MovieInserted (m_id m')]\<rparr>)))"

text \<open>\<open>Update\<close> is the ORM's \<open>Save\<close>: without a primary key it creates; with one it
  writes every column of the row with that key (the creation timestamp as the struct has
  it, the update timestamp from the clock), and inserts the row when no row has the key.\<close>

definition repo_Update :: "env \<Rightarrow> movie \<Rightarrow> world \<Rightarrow> (error + movie) \<times> world" where
  "repo_Update e m w =
     (if m_id m = 0 then repo_Create e m w
      else
        case fault e (calls w) of
          Some err \<Rightarrow> (Inl err, tick w)
        | None \<Rightarrow>
            if list_ex (\<lambda>r. m_tmdb_id r = m_tmdb_id m \<and> m_id r \<noteq> m_id m) (movies w)
            then (Inl duplicate_key, tick w)
            else
              let m' = m\<lparr>m_updated_at := now e (calls w)\<rparr>;
                  row = m'\<lparr>m_genres := []\<rparr>;
                  links = link_genres (m_id m) (m_genres m) (movie_genres w)
              in if list_ex (\<lambda>r. m_id r = m_id m) (movies w)
                 then (Inr m',
                       tick (w\<lparr>movies := map (\<lambda>r. if m_id r = m_id m then row else r) (movies w),
                               movie_genres := links,
                               effects := effects w @ [MovieSaved (m_id m)]\<rparr>))
                 else (Inr m',
                       tick (w\<lparr>movies := movies w @ [row],
                               movie_genres := links,
                               effects := effects w @ [MovieInserted (m_id m)]\<rparr>)))"

definition repo_Delete :: "env \<Rightarrow> nat \<Rightarrow> world \<Rightarrow> error option \<times> world" where
  "repo_Delete e mid w =
     (case fault e (calls w) of
        Some err \<Rightarrow> (Some err, tick w)
      | None \<Rightarrow>
          (None, tick (w\<lparr>movies := filter (\<lambda>r. m_id r \<noteq> mid) (movies w),
                         effects := effects w @ [MovieDeleted mid]\<rparr>)))"

definition repo_FindByID :: "env \<Rightarrow> nat \<Rightarrow> world \<Rightarrow> (error + movie) \<times> world" where
  "repo_FindByID e mid w =
     (case fault e (calls w) of
        Some err \<Rightarrow> (Inl err, tick w)
      | None \<Rightarrow>
          (case find (\<lambda>r. m_id r = mid) (movies w) of
             None \<Rightarrow> (Inl ''movie not found'', tick w)
           | Some r \<Rightarrow>
               (Inr (r\<lparr>m_genres :=
                          filter (\<lambda>g. (m_id r, genre_id g) \<in> set (movie_genres w)) (genres w)\<rparr>),
                tick w)))"

definition repo_FindByTMDBID ::
  "env \<Rightarrow> int \<Rightarrow> world \<Rightarrow> (error + movie option) \<times> world" where
  "repo_FindByTMDBID e tmdbID w =
     (case fault e (calls w) of
        Some err \<Rightarrow> (Inl err, tick w)
      | None \<Rightarrow> (Inr (find (\<lambda>r. m_tmdb_id r = tmdbID) (movies w)), tick w))"

definition repo_CreateSyncLog ::
  "env \<Rightarrow> sync_log \<Rightarrow> world \<Rightarrow> (error option \<times> sync_log) \<times> world" where
  "repo_CreateSyncLog e l w =
     (case fault e (calls w) of
        Some err \<Rightarrow> ((Some err, l), tick w)
      | None \<Rightarrow>
          let l' = l\<lparr>sl_id := log_seq w + 1, sl_created_at := now e (calls w)\<rparr>
          in ((None, l'),
              tick (w\<lparr>sync_logs := sync_logs w @ [l'],
                      log_seq := log_seq w + 1,
                      effects := effects w @ [LogInserted (sl_id l')]\<rparr>)))"


text \<open>
  \<open>GetMoviesByMonth\<close> runs
  \<^verbatim>\<open>SELECT CAST(SUBSTRING(release_date, 6, 2) AS INTEGER) AS month, COUNT(*) AS count\<close>
  \<^verbatim>\<open>WHERE release_date LIKE 'YYYY%' AND LENGTH(release_date) >= 7\<close>
  \<^verbatim>\<open>GROUP BY SUBSTRING(release_date, 6, 2) ORDER BY month\<close>.
  The cast of a text to \<open>INTEGER\<close> accepts blanks, an optional sign, decimal digits and
  blanks, within 32 bits; on any other text the statement fails. The year string is
  built digit by digit; for the years the service lets through (1900 to 2100) these are
  the four decimal digits.
\<close>

definition sql_space :: "char \<Rightarrow> bool" where
  "sql_space c = (c \<in> set [CHR '' '', CHR 0x09, CHR 0x0A, CHR 0x0B, CHR 0x0C, CHR 0x0D])"

definition cast_integer :: "string \<Rightarrow> int option" where
  "cast_integer s =
     (let s1 = dropWhile sql_space s;
          neg = (s1 \<noteq> [] \<and> hd s1 = CHR ''-'');
          s2 = (if s1 \<noteq> [] \<and> (hd s1 = CHR ''+'' \<or> hd s1 = CHR ''-'') then tl s1 else s1);
          ds = takeWhile is_digit s2;
          rest = dropWhile sql_space (dropWhile is_digit s2);
          v = digits_val ds
      in if ds = [] \<or> rest \<noteq> [] then None
         else if neg then (if v > 2 ^ 31 then None else Some (- v))
         else (if v > 2 ^ 31 - 1 then None else Some v))"

definition year_string :: "int \<Rightarrow> string" where
  "year_string year =
     [char_of (48 + year sdiv 1000), char_of (48 + (year sdiv 100) smod 10),
      char_of (48 + (year sdiv 10) smod 10), char_of (48 + year smod 10)]"

definition month_names :: "string list" where
  "month_names = [''Jan'', ''Feb'', ''Mar'', ''Apr'', ''May'', ''Jun'',
                  ''Jul'', ''Aug'', ''Sep'', ''Oct'', ''Nov'', ''Dec'']"

definition month_key :: "movie \<Rightarrow> string" where
  "month_key r = take 2 (drop 5 (m_release_date r))"

definition month_rows :: "string \<Rightarrow> movie list \<Rightarrow> movie list" where
  "month_rows yearStr rows =
     filter (\<lambda>r. prefix yearStr (m_release_date r) \<and> length (m_release_date r) \<ge> 7) rows"

definition month_counts :: "string \<Rightarrow> movie list \<Rightarrow> (int \<times> int) list option" where
  "month_counts yearStr rows =
     (let sel = month_rows yearStr rows;
          keys = remdups (map month_key sel)
      in map_option (sort_key fst)
           (those (map (\<lambda>k. map_option
                               (\<lambda>m. (m, int (length (filter (\<lambda>r. month_key r = k) sel))))
                               (cast_integer k)) keys)))"

definition repo_GetMoviesByMonth ::
  "env \<Rightarrow> int \<Rightarrow> world \<Rightarrow> (error + column_chart_data list) \<times> world" where
  "repo_GetMoviesByMonth e year w =
     (case fault e (calls w) of
        Some err \<Rightarrow> (Inl err, tick w)
      | None \<Rightarrow>
          (case month_counts (year_string year) (movies w) of
             None \<Rightarrow> (Inl ''invalid input syntax for type integer'', tick w)
           | Some monthCounts \<Rightarrow>
               let monthMap = fold (\<lambda>(m, c) mm. mm(m := c)) monthCounts (\<lambda>_. 0);
                   results = map (\<lambda>(i, month).
                                    \<lparr>cc_label = month, cc_count = monthMap (int i + 1)\<rparr>)
                               (enumerate 0 month_names)
               in (Inr results, tick w)))"

subsection \<open>Upload service: deleting an object\<close>

text \<open>\<open>delete_key\<close> is the object key that \<open>DeleteFile\<close> hands to \<open>RemoveObject\<close>.
  Removing a key that is not in the bucket succeeds.\<close>

definition delete_key :: "string \<Rightarrow> string \<Rightarrow> string" where
  "delete_key bucket objectPath =
     (let p = (if Contains objectPath ''http''
               then (let parts = Split objectPath CHR ''/''
                     in if length parts > 0 then last parts else objectPath)
               else objectPath)
      in TrimPrefix p (bucket @ ''/''))"

definition DeleteFile :: "env \<Rightarrow> string \<Rightarrow> string \<Rightarrow> world \<Rightarrow> error option \<times> world" where
  "DeleteFile e bucket objectPath w =
     (let k = delete_key bucket objectPath
      in case fault e (calls w) of
           Some err \<Rightarrow> (Some (''failed to delete file: '' @ err), tick w)
         | None \<Rightarrow>
             (None, tick (w\<lparr>objects := objects w - {k},
                            effects := effects w @ [ObjectRemoved k]\<rparr>)))"

subsection \<open>Movie service\<close>

text \<open>\<open>has_minio\<close> says whether \<open>SetMinIOService\<close> has wired the upload service in;
  \<open>bucket_name\<close> is \<open>config.MinIO.BucketName\<close>, which is also the upload service's
  bucket.\<close>

record service =
  has_minio :: bool
  bucket_name :: string

definition getGenreName :: "int \<Rightarrow> string" where
  "getGenreName genreID =
     (case map_of
        [(28, ''Action''), (12, ''Adventure''), (16, ''Animation''), (35, ''Comedy''),
         (80, ''Crime''), (99, ''Documentary''), (18, ''Drama''), (10751, ''Family''),
         (14, ''Fantasy''), (36, ''History''), (27, ''Horror''), (10402, ''Music''),
         (9648, ''Mystery''), (10749, ''Romance''), (878, ''Science Fiction''),
         (10770, ''TV Movie''), (53, ''Thriller''), (10752, ''War''), (37, ''Western'')]
        genreID of
        Some name \<Rightarrow> name
      | None \<Rightarrow> ''Genre '' @ Itoa genreID)"

definition getLanguageName :: "string \<Rightarrow> string" where
  "getLanguageName langCode =
     (case map_of
        [(''en'', ''English''), (''ja'', ''Japanese''), (''ko'', ''Korean''),
         (''zh'', ''Chinese''), (''es'', ''Spanish''), (''fr'', ''French''),
         (''de'', ''German''), (''it'', ''Italian''), (''pt'', ''Portuguese''),
         (''ru'', ''Russian''), (''hi'', ''Hindi''), (''th'', ''Thai''),
         (''id'', ''Indonesian''), (''tr'', ''Turkish''), (''ar'', ''Arabic''),
         (''pl'', ''Polish''), (''nl'', ''Dutch''), (''sv'', ''Swedish''),
         (''no'', ''Norwegian''), (''da'', ''Danish''), (''fi'', ''Finnish''),
         (''cs'', ''Czech''), (''hu'', ''Hungarian''), (''ro'', ''Romanian'')]
        langCode of
        Some name \<Rightarrow> name
      | None \<Rightarrow> langCode)"

text \<open>The block that \<open>UpdateMovie\<close> and \<open>DeleteMovie\<close> repeat for the poster and the
  backdrop: when the stored path is a URL of the bucket, take its last path segment,
  cut it at the first question mark and delete that object; a failure is only logged.\<close>

definition remove_image :: "env \<Rightarrow> service \<Rightarrow> string \<Rightarrow> world \<Rightarrow> world" where
  "remove_image e s path w =
     (if Contains path ''http'' \<and> Contains path (bucket_name s) then
        (let parts = Split path CHR ''/''
         in if length parts > 0 then
              (let filename = last parts;
                   idx = Index filename CHR ''?'';
                   filename = (if idx \<noteq> - 1 then take (nat idx) filename else filename)
               in snd (DeleteFile e (bucket_name s) filename w))
            else w)
      else w)"

text \<open>\<open>FindByID\<close> returns a movie or an error, never neither, so the test
  \<open>existing == nil\<close> that follows it in \<open>UpdateMovie\<close> and \<open>DeleteMovie\<close> has no case
  here.\<close>

definition UpdateMovie ::
  "env \<Rightarrow> service \<Rightarrow> nat \<Rightarrow> movie \<Rightarrow> world \<Rightarrow> (error + movie) \<times> world" where
  "UpdateMovie e s mid movie w =
     (case repo_FindByID e mid w of
        (Inl err, w1) \<Rightarrow> (Inl err, w1)
      | (Inr existing, w1) \<Rightarrow>
          let w2 = (if has_minio s then
                      (let wa = (if m_poster_path movie \<noteq> []
                                    \<and> m_poster_path movie \<noteq> m_poster_path existing
                                 then remove_image e s (m_poster_path existing) w1 else w1)
                       in if m_backdrop_path movie \<noteq> []
                             \<and> m_backdrop_path movie \<noteq> m_backdrop_path existing
                          then remove_image e s (m_backdrop_path existing) wa else wa)
                    else w1)
          in repo_Update e
               (movie\<lparr>m_id := mid, m_created_at := m_created_at existing,
                      m_tmdb_id := m_tmdb_id existing\<rparr>) w2)"

definition DeleteMovie ::
  "env \<Rightarrow> service \<Rightarrow> nat \<Rightarrow> world \<Rightarrow> error option \<times> world" where
  "DeleteMovie e s mid w =
     (case repo_FindByID e mid w of
        (Inl err, w1) \<Rightarrow> (Some err, w1)
      | (Inr existing, w1) \<Rightarrow>
          let w2 = (if has_minio s then
                      (let wa = (if m_poster_path existing \<noteq> []
                                 then remove_image e s (m_poster_path existing) w1 else w1)
                       in if m_backdrop_path existing \<noteq> []
                          then remove_image e s (m_backdrop_path existing) wa else wa)
                    else w1)
          in repo_Delete e mid w2)"

definition GetMovieByID :: "env \<Rightarrow> nat \<Rightarrow> world \<Rightarrow> (error + movie) \<times> world" where
  "GetMovieByID e mid w = repo_FindByID e mid w"

text \<open>The listing query of the repository (\<open>FindAll\<close>: search, date range, sort,
  offset and limit in SQL) is a parameter of \<open>GetAllMovies\<close>, as the repository is a
  field of interface type in the service.\<close>

definition GetAllMovies ::
  "(int \<Rightarrow> int \<Rightarrow> string \<Rightarrow> string \<Rightarrow> string \<Rightarrow> string \<Rightarrow> string \<Rightarrow> 'r)
     \<Rightarrow> int \<Rightarrow> int \<Rightarrow> string \<Rightarrow> string \<Rightarrow> string \<Rightarrow> string \<Rightarrow> string \<Rightarrow> 'r" where
  "GetAllMovies FindAll page limit search sortBy order startDate endDate =
     (let page = (if page < 1 then 1 else page);
          limit = (if limit < 1 then 20 else limit);
          limit = (if limit > 100 then 100 else limit)
      in FindAll page limit search sortBy order startDate endDate)"

definition GetMoviesByMonth ::
  "env \<Rightarrow> int \<Rightarrow> world \<Rightarrow> (error + column_chart_data list) \<times> world" where
  "GetMoviesByMonth e year w =
     (if year < 1900 \<or> year > 2100 then (Inl (''invalid year: '' @ Itoa year), w)
      else repo_GetMoviesByMonth e year w)"


subsection \<open>Synchronisation with TMDB\<close>

definition fetchPopularMoviesFromTMDB ::
  "env \<Rightarrow> int \<Rightarrow> world \<Rightarrow> (error + tmdb_movie list) \<times> world" where
  "fetchPopularMoviesFromTMDB e page w =
     (fetch_page e page, tick (w\<lparr>effects := effects w @ [FetchPage page]\<rparr>))"

text \<open>The inner loop over \<open>GenreIDs\<close>: a genre that cannot be resolved is logged and
  left out (\<open>continue\<close> of the inner loop), the others are appended in order.\<close>

fun resolve_genres :: "env \<Rightarrow> int list \<Rightarrow> genre list \<Rightarrow> world \<Rightarrow> genre list \<times> world" where
  "resolve_genres e [] acc w = (acc, w)"
| "resolve_genres e (genreID # rest) acc w =
     (case genreRepo_FindOrCreate e genreID (getGenreName genreID) w of
        (Inl err, w1) \<Rightarrow> resolve_genres e rest acc w1
      | (Inr g, w1) \<Rightarrow> resolve_genres e rest (acc @ [g]) w1)"

definition movie_of_tmdb :: "tmdb_movie \<Rightarrow> language \<Rightarrow> movie" where
  "movie_of_tmdb t l =
     \<lparr>m_id = 0, m_tmdb_id = t_id t, m_title = t_title t,
      m_original_title = t_original_title t, m_overview = t_overview t,
      m_release_date = t_release_date t, m_poster_path = t_poster_path t,
      m_backdrop_path = t_backdrop_path t, m_vote_average = t_vote_average t,
      m_vote_count = t_vote_count t, m_popularity = t_popularity t,
      m_adult = t_adult t, m_language_id = Some (lang_id l), m_genres = [],
      m_created_at = 0, m_updated_at = 0\<rparr>"

text \<open>The body of the loop over the items of a page. The state is the world and the
  two counters \<open>moviesAdded\<close> and \<open>moviesUpdated\<close> (a run adds at most one per item,
  far from the 64-bit bound).\<close>

definition sync_item :: "env \<Rightarrow> tmdb_movie \<Rightarrow> world \<times> int \<times> int \<Rightarrow> world \<times> int \<times> int" where
  "sync_item e tmdbMovie st =
     (case st of (w, moviesAdded, moviesUpdated) \<Rightarrow>
        (case langRepo_FindOrCreate e (t_original_language tmdbMovie)
                (getLanguageName (t_original_language tmdbMovie)) w of
           (Inl err, w1) \<Rightarrow> (w1, moviesAdded, moviesUpdated)
         | (Inr l, w1) \<Rightarrow>
             (case resolve_genres e (t_genre_ids tmdbMovie) [] w1 of
                (gs, w2) \<Rightarrow>
                  let movie = (movie_of_tmdb tmdbMovie l)\<lparr>m_genres := gs\<rparr>
                  in (case repo_FindByTMDBID e (m_tmdb_id movie) w2 of
                        (Inl err, w3) \<Rightarrow> (w3, moviesAdded, moviesUpdated)
                      | (Inr None, w3) \<Rightarrow>
                          (case repo_Create e movie w3 of
                             (Inl err, w4) \<Rightarrow> (w4, moviesAdded, moviesUpdated)
                           | (Inr created, w4) \<Rightarrow> (w4, moviesAdded + 1, moviesUpdated))
                      | (Inr (Some existing), w3) \<Rightarrow>
                          (case repo_Update e
                                  (movie\<lparr>m_id := m_id existing,
                                         m_created_at := m_created_at existing\<rparr>) w3 of
                             (Inl err, w4) \<Rightarrow> (w4, moviesAdded, moviesUpdated)
                           | (Inr saved, w4) \<Rightarrow> (w4, moviesAdded, moviesUpdated + 1))))))"

fun sync_items :: "env \<Rightarrow> tmdb_movie list \<Rightarrow> world \<times> int \<times> int \<Rightarrow> world \<times> int \<times> int" where
  "sync_items e [] st = st"
| "sync_items e (tmdbMovie # rest) st = sync_items e rest (sync_item e tmdbMovie st)"

text \<open>The loop over the pages, from \<open>page\<close> on, and what follows it. The error of
  \<open>CreateSyncLog\<close> is discarded in both places (\<open>_ = s.repo.CreateSyncLog(...)\<close>); the
  log returned is the struct as the store call leaves it.\<close>

function sync_pages ::
  "env \<Rightarrow> sync_log \<Rightarrow> int \<Rightarrow> int \<Rightarrow> world \<times> int \<times> int
     \<Rightarrow> (sync_log \<times> error option) \<times> world" where
  "sync_pages e syncLog page pages st =
     (case st of (w, moviesAdded, moviesUpdated) \<Rightarrow>
        if page \<le> pages then
          (case fetchPopularMoviesFromTMDB e page w of
             (Inl err, w1) \<Rightarrow>
               (case repo_CreateSyncLog e
                       (syncLog\<lparr>sl_error_message :=
                                  ''failed to fetch page '' @ Itoa page @ '': '' @ err\<rparr>) w1 of
                  ((discarded, l), w2) \<Rightarrow> ((l, Some err), w2))
           | (Inr items, w1) \<Rightarrow>
               sync_pages e syncLog (page + 1) pages
                 (sync_items e items (w1, moviesAdded, moviesUpdated)))
        else
          (case repo_CreateSyncLog e
                  (syncLog\<lparr>sl_status := ''success'', sl_movies_added := moviesAdded,
                           sl_movies_updated := moviesUpdated\<rparr>) w of
             ((discarded, l), w1) \<Rightarrow> ((l, None), w1)))"
  by pat_completeness auto
termination
  by (relation "measure (\<lambda>(e, syncLog, page, pages, st). nat (pages + 1 - page))") auto

declare sync_pages.simps [simp del]

definition SyncMoviesFromTMDB ::
  "env \<Rightarrow> int \<Rightarrow> world \<Rightarrow> (sync_log \<times> error option) \<times> world" where
  "SyncMoviesFromTMDB e pages w =
     (let syncLog = \<lparr>sl_id = 0, sl_sync_type = ''manual'', sl_status = ''failed'',
                     sl_movies_added = 0, sl_movies_updated = 0, sl_error_message = [],
                     sl_synced_at = now e (calls w), sl_created_at = 0\<rparr>;
          pages = (if pages < 1 then 1 else pages);
          pages = (if pages > 10 then 10 else pages)
      in sync_pages e syncLog 1 pages (w, 0, 0))"

subsection \<open>Handlers\<close>

record movie_request =
  rq_tmdb_id :: int
  rq_title :: string
  rq_original_title :: string
  rq_overview :: string
  rq_release_date :: string
  rq_poster_path :: string
  rq_backdrop_path :: string
  rq_vote_average :: float64
  rq_vote_count :: int
  rq_popularity :: float64
  rq_adult :: bool
  rq_original_language :: string

text \<open>The service always has the two language methods, so the type assertion in
  \<open>convertRequestToMovie\<close> succeeds. The function never returns an error.\<close>

definition convertRequestToMovie :: "env \<Rightarrow> movie_request \<Rightarrow> world \<Rightarrow> movie \<times> world" where
  "convertRequestToMovie e req w =
     (case (if rq_original_language req \<noteq> [] then
              (case langRepo_FindByCode e (rq_original_language req) w of
                 (Inr (Some lang), w1) \<Rightarrow> (Some (lang_id lang), w1)
               | (other, w1) \<Rightarrow>
                   (case langRepo_FindOrCreate e (rq_original_language req)
                           (getLanguageName (rq_original_language req)) w1 of
                      (Inr lang, w2) \<Rightarrow> (Some (lang_id lang), w2)
                    | (Inl err, w2) \<Rightarrow> (None, w2)))
            else (None, w)) of
        (languageID, w') \<Rightarrow>
          (\<lparr>m_id = 0, m_tmdb_id = rq_tmdb_id req, m_title = rq_title req,
            m_original_title = rq_original_title req, m_overview = rq_overview req,
            m_release_date = rq_release_date req, m_poster_path = rq_poster_path req,
            m_backdrop_path = rq_backdrop_path req, m_vote_average = rq_vote_average req,
            m_vote_count = rq_vote_count req, m_popularity = rq_popularity req,
            m_adult = rq_adult req, m_language_id = languageID, m_genres = [],
            m_created_at = 0, m_updated_at = 0\<rparr>, w'))"

text \<open>A handler gets the raw path parameter \<open>id\<close> and, where it reads a body, the
  result of \<open>BodyParser\<close> (\<open>None\<close> when the body does not parse).\<close>

definition handler_GetMovieByID :: "env \<Rightarrow> string \<Rightarrow> world \<Rightarrow> response \<times> world" where
  "handler_GetMovieByID e idParam w =
     (case ParseUint32 idParam of
        None \<Rightarrow> (ErrorResponse 400 ''Invalid movie ID'', w)
      | Some mid \<Rightarrow>
          (case GetMovieByID e mid w of
             (Inl err, w1) \<Rightarrow> (ErrorResponse 404 ''Movie not found'', w1)
           | (Inr movie, w1) \<Rightarrow>
               (SuccessResponse 200 ''Movie retrieved successfully'' (MovieData movie), w1)))"

definition handler_UpdateMovie ::
  "env \<Rightarrow> service \<Rightarrow> string \<Rightarrow> movie_request option \<Rightarrow> world \<Rightarrow> response \<times> world" where
  "handler_UpdateMovie e s idParam body w =
     (case ParseUint32 idParam of
        None \<Rightarrow> (ErrorResponse 400 ''Invalid movie ID'', w)
      | Some mid \<Rightarrow>
          (case body of
             None \<Rightarrow> (ErrorResponse 400 ''Invalid request body'', w)
           | Some req \<Rightarrow>
               (case convertRequestToMovie e req w of
                  (movie, w1) \<Rightarrow>
                    (case UpdateMovie e s mid movie w1 of
                       (Inl err, w2) \<Rightarrow> (ErrorResponse 500 err, w2)
                     | (Inr saved, w2) \<Rightarrow>
                         (SuccessResponse 200 ''Movie updated successfully'' (MovieData saved),
                          w2)))))"

definition handler_DeleteMovie ::
  "env \<Rightarrow> service \<Rightarrow> string \<Rightarrow> world \<Rightarrow> response \<times> world" where
  "handler_DeleteMovie e s idParam w =
     (case ParseUint32 idParam of
        None \<Rightarrow> (ErrorResponse 400 ''Invalid movie ID'', w)
      | Some mid \<Rightarrow>
          (case DeleteMovie e s mid w of
             (Some err, w1) \<Rightarrow> (ErrorResponse 500 err, w1)
           | (None, w1) \<Rightarrow> (SuccessResponse 200 ''Movie deleted successfully'' NoData, w1)))"

text \<open>\<open>c.Query(key, default)\<close> gives the default when the parameter is absent or
  empty. \<open>GetAllMovies\<close> gets the raw query values; a panic in the handler is the left
  summand.\<close>

definition Query :: "string \<Rightarrow> string \<Rightarrow> string" where
  "Query v d = (if v = [] then d else v)"

definition handler_GetAllMovies ::
  "(int \<Rightarrow> int \<Rightarrow> string \<Rightarrow> string \<Rightarrow> string \<Rightarrow> string \<Rightarrow> string
      \<Rightarrow> error + movie list \<times> int)
   \<Rightarrow> string \<Rightarrow> string \<Rightarrow> string \<Rightarrow> string \<Rightarrow> string \<Rightarrow> string \<Rightarrow> string
   \<Rightarrow> panic + response" where
  "handler_GetAllMovies FindAll pageQ limitQ search sortBy order startDate endDate =
     (let page = fst (Atoi (Query pageQ ''1''));
          limit = fst (Atoi (Query limitQ ''20''))
      in case GetAllMovies FindAll page limit search (Query sortBy ''updated_at'')
                (Query order ''DESC'') startDate endDate of
           Inl err \<Rightarrow> Inr (ErrorResponse 500 ''Failed to retrieve movies'')
         | Inr (found, count) \<Rightarrow>
             (case CreatePaginationMeta page limit count of
                Inl p \<Rightarrow> Inl p
              | Inr meta \<Rightarrow>
                  Inr (SuccessWithMetaResponse 200 ''Movies retrieved successfully''
                         (MovieList found) meta)))"


subsection \<open>The upload service's deletion, in the words of the specification\<close>

text \<open>The specification describes the key as the trailing path segment of the input
  with any query string stripped.\<close>

definition spec_delete_key :: "string \<Rightarrow> string" where
  "spec_delete_key objectPath =
     takeWhile (\<lambda>c. c \<noteq> CHR ''?'') (last (Split objectPath CHR ''/''))"

subsection \<open>Concrete worlds and environments\<close>

definition empty_world :: world where
  "empty_world =
     \<lparr>movies = [], languages = [], genres = [], movie_genres = [], sync_logs = [],
      movie_seq = 0, language_seq = 0, genre_seq = 0, log_seq = 0, objects = {},
      calls = 0, effects = []\<rparr>"

definition quiet_env :: env where
  "quiet_env =
     \<lparr>fetch_page = (\<lambda>p. Inl ''connection refused''), fault = (\<lambda>n. None),
      now = (\<lambda>n. 1000 + n)\<rparr>"

text \<open>A listing query that answers only when page and limit are in range.\<close>

definition strict_listing ::
  "int \<Rightarrow> int \<Rightarrow> string \<Rightarrow> string \<Rightarrow> string \<Rightarrow> string \<Rightarrow> string
     \<Rightarrow> error + movie list \<times> int" where
  "strict_listing p l search sortBy ord startDate endDate =
     (if 1 \<le> p \<and> 1 \<le> l \<and> l \<le> 100 then Inr ([], 45) else Inl ''bad page or limit'')"

definition movie_a :: tmdb_movie where
  "movie_a = \<lparr>t_id = 550, t_title = ''Fight Club'', t_original_title = ''Fight Club'',
     t_overview = ''An insomniac clerk'', t_release_date = ''1999-10-15'',
     t_poster_path = ''/a.jpg'', t_backdrop_path = ''/b.jpg'', t_vote_average = 84,
     t_vote_count = 26280, t_popularity = 61, t_adult = False,
     t_original_language = ''en'', t_genre_ids = [18]\<rparr>"

definition movie_b :: tmdb_movie where
  "movie_b = \<lparr>t_id = 129, t_title = ''Spirited Away'', t_original_title = ''Sen to Chihiro'',
     t_overview = ''A girl in the spirit world'', t_release_date = ''2001-07-20'',
     t_poster_path = ''/c.jpg'', t_backdrop_path = ''/d.jpg'', t_vote_average = 85,
     t_vote_count = 15000, t_popularity = 70, t_adult = False,
     t_original_language = ''ja'', t_genre_ids = [16, 14]\<rparr>"

definition one_page_env :: env where
  "one_page_env = \<lparr>fetch_page = (\<lambda>p. if p = 1 then Inr [movie_a, movie_b]
                                       else Inl ''TMDB API returned status 500''),
      fault = (\<lambda>n. None), now = (\<lambda>n. 1000 + n)\<rparr>"

definition fault_at :: "nat \<Rightarrow> env" where
  "fault_at n = one_page_env\<lparr>fault := (\<lambda>i. if i = n then Some ''connection lost'' else None)\<rparr>"

subsection \<open>Observations on a run\<close>

definition fetched :: "effect list \<Rightarrow> int list" where
  "fetched es = concat (map (\<lambda>x. case x of FetchPage p \<Rightarrow> [p] | _ \<Rightarrow> []) es)"

definition inserted :: "effect list \<Rightarrow> nat" where
  "inserted es = length (filter (\<lambda>x. case x of MovieInserted i \<Rightarrow> True | _ \<Rightarrow> False) es)"

definition saved :: "effect list \<Rightarrow> nat" where
  "saved es = length (filter (\<lambda>x. case x of MovieSaved i \<Rightarrow> True | _ \<Rightarrow> False) es)"

definition db_ok :: "world \<Rightarrow> bool" where
  "db_ok w = (distinct (map m_id (movies w)) \<and> distinct (map m_tmdb_id (movies w))
              \<and> list_all (\<lambda>r. 0 < m_id r \<and> m_id r \<le> movie_seq w) (movies w))"

text \<open>What a language or genre lookup leaves alone.\<close>

definition same_movies :: "world \<Rightarrow> world \<Rightarrow> bool" where
  "same_movies w w' = (movies w' = movies w \<and> movie_seq w' = movie_seq w
       \<and> movie_genres w' = movie_genres w \<and> sync_logs w' = sync_logs w
       \<and> log_seq w' = log_seq w \<and> effects w' = effects w \<and> objects w' = objects w)"

text \<open>Counters against the effects of the store.\<close>

definition counts_agree :: "world \<times> int \<times> int \<Rightarrow> world \<times> int \<times> int \<Rightarrow> bool" where
  "counts_agree st st' =
     (case st of (w, a, u) \<Rightarrow> case st' of (w', a', u') \<Rightarrow>
        a' - a = int (inserted (effects w')) - int (inserted (effects w))
      \<and> u' - u = int (saved (effects w')) - int (saved (effects w))
      \<and> int (length (movies w')) - int (length (movies w)) = a' - a
      \<and> sync_logs w' = sync_logs w \<and> log_seq w' = log_seq w)"

definition fetch_ok :: "env \<Rightarrow> int \<Rightarrow> bool" where
  "fetch_ok e p = (case fetch_page e p of Inl err \<Rightarrow> False | Inr items \<Rightarrow> True)"

definition fetch_error_message :: "int \<Rightarrow> error \<Rightarrow> string" where
  "fetch_error_message page err = ''failed to fetch page '' @ Itoa page @ '': '' @ err"

abbreviation effective_pages :: "int \<Rightarrow> int" where
  "effective_pages pages \<equiv> (if pages < 1 then 1 else if pages > 10 then 10 else pages)"

abbreviation sync_log_of :: "env \<Rightarrow> int \<Rightarrow> world \<Rightarrow> sync_log" where
  "sync_log_of e pages w \<equiv> fst (fst (SyncMoviesFromTMDB e pages w))"

abbreviation sync_error_of :: "env \<Rightarrow> int \<Rightarrow> world \<Rightarrow> error option" where
  "sync_error_of e pages w \<equiv> snd (fst (SyncMoviesFromTMDB e pages w))"

abbreviation sync_world_of :: "env \<Rightarrow> int \<Rightarrow> world \<Rightarrow> world" where
  "sync_world_of e pages w \<equiv> snd (SyncMoviesFromTMDB e pages w)"

subsection \<open>What a stored movie row holds\<close>

text \<open>A row carries a payload when every column that the payload has a value for
  holds that value.\<close>

definition carries :: "movie \<Rightarrow> tmdb_movie \<Rightarrow> bool" where
  "carries r t =
     (m_tmdb_id r = t_id t \<and> m_title r = t_title t
      \<and> m_original_title r = t_original_title t \<and> m_overview r = t_overview t
      \<and> m_release_date r = t_release_date t \<and> m_poster_path r = t_poster_path t
      \<and> m_backdrop_path r = t_backdrop_path t \<and> m_vote_average r = t_vote_average t
      \<and> m_vote_count r = t_vote_count t \<and> m_popularity r = t_popularity t
      \<and> m_adult r = t_adult t)"

text \<open>\<open>stored_as w t i c\<close>: the movie table of \<open>w\<close> has exactly one row with the external
  id of \<open>t\<close>; it has internal id \<open>i\<close> and creation time \<open>c\<close>, carries the payload \<open>t\<close>, and
  refers to the language row of the payload's language code.\<close>

definition stored_as :: "world \<Rightarrow> tmdb_movie \<Rightarrow> nat \<Rightarrow> time \<Rightarrow> bool" where
  "stored_as w t i c =
     (case filter (\<lambda>r. m_tmdb_id r = t_id t) (movies w) of
        [row] \<Rightarrow>
          m_id row = i \<and> m_created_at row = c \<and> carries row t
          \<and> (case find (\<lambda>l. lang_code l = t_original_language t) (languages w) of
                Some l \<Rightarrow> m_language_id row = Some (lang_id l)
              | None \<Rightarrow> False)
      | _ \<Rightarrow> False)"

text \<open>The genre ids of a payload whose lookup does not fail, the lookups being the store
  calls numbered from \<open>n\<close> on.\<close>

fun kept_genre_ids :: "env \<Rightarrow> nat \<Rightarrow> int list \<Rightarrow> int list" where
  "kept_genre_ids e n [] = []"
| "kept_genre_ids e n (genreID # rest) =
     (if fault e n = None then genreID # kept_genre_ids e (Suc n) rest
      else kept_genre_ids e (Suc n) rest)"

text \<open>\<open>genre_links_added w w' mid gids\<close>: every id of \<open>gids\<close> has a genre row in \<open>w'\<close>, and
  the join table of \<open>w'\<close> holds the links of \<open>w\<close> and a link from movie \<open>mid\<close> to each of
  those genre rows, and nothing else.\<close>

definition genre_links_added :: "world \<Rightarrow> world \<Rightarrow> nat \<Rightarrow> int list \<Rightarrow> bool" where
  "genre_links_added w w' mid gids =
     (case those (map (\<lambda>gid. find (\<lambda>g. genre_tmdb_id g = gid) (genres w')) gids) of
        None \<Rightarrow> False
      | Some gs \<Rightarrow>
          set (movie_genres w') = set (movie_genres w) \<union> set (map (\<lambda>g. (mid, genre_id g)) gs))"

definition movie_a_again :: tmdb_movie where
  "movie_a_again = \<lparr>t_id = 550, t_title = ''Fight Club (1999)'', t_original_title = ''Fight Club'',
     t_overview = ''A ticking-time-bomb insomniac'', t_release_date = ''1999-10-15'',
     t_poster_path = ''/a2.jpg'', t_backdrop_path = ''/b2.jpg'', t_vote_average = 85,
     t_vote_count = 26300, t_popularity = 64, t_adult = False,
     t_original_language = ''en'', t_genre_ids = [53]\<rparr>"

text \<open>The world after \<open>movie_a\<close> has been synchronised into the empty world.\<close>

definition one_movie_world :: world where
  "one_movie_world = fst (sync_item quiet_env movie_a (empty_world, 0, 0))"

subsection \<open>What an update through the service leaves in the row\<close>

text \<open>The columns that a caller of \<open>UpdateMovie\<close> may set.\<close>

definition same_supplied :: "movie \<Rightarrow> movie \<Rightarrow> bool" where
  "same_supplied r m =
     (m_title r = m_title m \<and> m_original_title r = m_original_title m
      \<and> m_overview r = m_overview m \<and> m_release_date r = m_release_date m
      \<and> m_poster_path r = m_poster_path m \<and> m_backdrop_path r = m_backdrop_path m
      \<and> m_vote_average r = m_vote_average m \<and> m_vote_count r = m_vote_count m
      \<and> m_popularity r = m_popularity m \<and> m_adult r = m_adult m
      \<and> m_language_id r = m_language_id m)"

text \<open>\<open>updated_as w w' mid m\<close>: the row that had internal id \<open>mid\<close> in \<open>w\<close> is, in \<open>w'\<close>,
  the only row with that id; it kept its creation timestamp and external id and holds
  the supplied columns of \<open>m\<close>.\<close>

definition updated_as :: "world \<Rightarrow> world \<Rightarrow> nat \<Rightarrow> movie \<Rightarrow> bool" where
  "updated_as w w' mid m =
     (case find (\<lambda>r. m_id r = mid) (movies w) of
        None \<Rightarrow> False
      | Some ex \<Rightarrow>
          (case filter (\<lambda>r. m_id r = mid) (movies w') of
             [row] \<Rightarrow> m_created_at row = m_created_at ex \<and> m_tmdb_id row = m_tmdb_id ex
                      \<and> same_supplied row m
           | _ \<Rightarrow> False))"

definition minio_service :: service where
  "minio_service = \<lparr>has_minio = True, bucket_name = ''movies''\<rparr>"

definition request_a :: movie_request where
  "request_a = \<lparr>rq_tmdb_id = 999, rq_title = ''Fight Club (director's cut)'',
     rq_original_title = ''Fight Club'', rq_overview = ''Edited by hand'',
     rq_release_date = ''1999-11-11'',
     rq_poster_path = ''https://cdn.example/movies/new_1a2b3c4d.jpg'',
     rq_backdrop_path = [], rq_vote_average = 90, rq_vote_count = 1, rq_popularity = 5,
     rq_adult = False, rq_original_language = ''fr''\<rparr>"

definition supplied_movie :: movie where
  "supplied_movie = \<lparr>m_id = 42, m_tmdb_id = 999, m_title = ''Fight Club (director's cut)'',
     m_original_title = ''Fight Club'', m_overview = ''Edited by hand'',
     m_release_date = ''1999-11-11'',
     m_poster_path = ''https://cdn.example/movies/new_1a2b3c4d.jpg'', m_backdrop_path = [],
     m_vote_average = 90, m_vote_count = 1, m_popularity = 5, m_adult = False,
     m_language_id = None, m_genres = [], m_created_at = 7, m_updated_at = 7\<rparr>"

subsection \<open>A release date whose month does not read as a number\<close>

text \<open>A movie that \<open>CreateMovie\<close> accepts: it has a title, and its release date is
  free text that nothing checks.\<close>

definition odd_date_movie :: movie where
  "odd_date_movie = \<lparr>m_id = 0, m_tmdb_id = 77, m_title = ''Untitled'',
     m_original_title = ''Untitled'', m_overview = [], m_release_date = ''2024-1-05'',
     m_poster_path = [], m_backdrop_path = [], m_vote_average = 0, m_vote_count = 0,
     m_popularity = 0, m_adult = False, m_language_id = None, m_genres = [],
     m_created_at = 0, m_updated_at = 0\<rparr>"

section \<open>Properties\<close>

subsection \<open>Listing: clamping and pagination metadata\<close>

lemma Atoi_defaults: "Atoi ''1'' = (1, False)" "Atoi ''20'' = (20, False)"
  by (simp_all add: Atoi_def is_digit_def digits_val_def digit_val_def)

text \<open>
  C5. Whatever page and limit the list operation is given, the repository query runs
  with a page of at least 1 (a page below 1 becomes 1) and a limit between 1 and 100
  (a limit below 1 becomes the default 20, a limit above 100 becomes 100, a limit in
  range is kept); an absent \<open>page\<close> or \<open>limit\<close> query value reads as 1 and 20.
\<close>

theorem GetAllMovies_clamps:
  "GetAllMovies FindAll page limit search sortBy order startDate endDate =
     FindAll (if page < 1 then 1 else page)
       (if limit < 1 then 20 else if limit > 100 then 100 else limit)
       search sortBy order startDate endDate
   \<and> 1 \<le> (if page < 1 then (1::int) else page)
   \<and> 1 \<le> (if limit < 1 then (20::int) else if limit > 100 then 100 else limit)
   \<and> (if limit < 1 then (20::int) else if limit > 100 then 100 else limit) \<le> 100
   \<and> fst (Atoi (Query [] ''1'')) = 1 \<and> fst (Atoi (Query [] ''20'')) = 20"
  by (simp add: GetAllMovies_def Let_def Query_def Atoi_defaults)

theorem GetAllMovies_clamps_witness:
  "GetAllMovies (\<lambda>p l s b ord sd ed. (p, l)) 0 500 [] [] [] [] [] = (1, 100)
   \<and> GetAllMovies (\<lambda>p l s b ord sd ed. (p, l)) (- 4) 0 [] [] [] [] [] = (1, 20)
   \<and> GetAllMovies (\<lambda>p l s b ord sd ed. (p, l)) 3 50 [] [] [] [] [] = (3, 50)"
  using GetAllMovies_clamps [of "\<lambda>p l s b ord sd ed. (p, l)" 0 500 "[]" "[]" "[]" "[]" "[]"]
    GetAllMovies_clamps [of "\<lambda>p l s b ord sd ed. (p, l)" "- 4" 0 "[]" "[]" "[]" "[]" "[]"]
    GetAllMovies_clamps [of "\<lambda>p l s b ord sd ed. (p, l)" 3 50 "[]" "[]" "[]" "[]" "[]"]
  by simp

text \<open>
  C9. When the listing query succeeds, the handler of \<open>GET /movies\<close> builds the
  pagination metadata from the page and limit as parsed from the query string, not
  from the clamped values the query ran with: a raw limit of 0 (the query ran with 20)
  makes \<open>CreatePaginationMeta\<close> divide by zero, and any other raw limit and page appear
  unchanged in the metadata.
\<close>

theorem handler_GetAllMovies_meta_from_raw_values:
  assumes "Atoi (Query pageQ ''1'') = (page, perr)"
    and "Atoi (Query limitQ ''20'') = (limit, lerr)"
    and "FindAll (if page < 1 then 1 else page)
           (if limit < 1 then 20 else if limit > 100 then 100 else limit)
           search (Query sortBy ''updated_at'') (Query order ''DESC'') startDate endDate
         = Inr (found, n)"
  shows "handler_GetAllMovies FindAll pageQ limitQ search sortBy order startDate endDate =
           (case CreatePaginationMeta page limit n of
              Inl p \<Rightarrow> Inl p
            | Inr meta \<Rightarrow> Inr (SuccessWithMetaResponse 200 ''Movies retrieved successfully''
                               (MovieList found) meta))
         \<and> (limit = 0 \<longrightarrow>
              handler_GetAllMovies FindAll pageQ limitQ search sortBy order startDate endDate
                = Inl DivideByZero)
         \<and> (limit \<noteq> 0 \<longrightarrow>
              (\<exists>meta. handler_GetAllMovies FindAll pageQ limitQ search sortBy order
                         startDate endDate
                       = Inr (SuccessWithMetaResponse 200 ''Movies retrieved successfully''
                                (MovieList found) meta)
                     \<and> pm_page meta = page \<and> pm_limit meta = limit))"
proof -
  let ?h = "handler_GetAllMovies FindAll pageQ limitQ search sortBy order startDate endDate"
  have q: "GetAllMovies FindAll page limit search (Query sortBy ''updated_at'')
             (Query order ''DESC'') startDate endDate = Inr (found, n)"
    using assms(3) by (auto simp: GetAllMovies_def Let_def)
  have main: "?h = (case CreatePaginationMeta page limit n of
              Inl p \<Rightarrow> Inl p
            | Inr meta \<Rightarrow> Inr (SuccessWithMetaResponse 200 ''Movies retrieved successfully''
                               (MovieList found) meta))"
    by (simp add: handler_GetAllMovies_def assms(1,2) q)
  have zero: "limit = 0 \<longrightarrow> ?h = Inl DivideByZero"
    by (simp add: main CreatePaginationMeta_def)
  have raw: "limit \<noteq> 0 \<longrightarrow>
              (\<exists>meta. ?h = Inr (SuccessWithMetaResponse 200 ''Movies retrieved successfully''
                               (MovieList found) meta)
               \<and> pm_page meta = page \<and> pm_limit meta = limit)"
    by (auto simp: main CreatePaginationMeta_def Let_def)
  from main zero raw show ?thesis by blast
qed

theorem handler_GetAllMovies_meta_from_raw_values_witness:
  "handler_GetAllMovies strict_listing ''2'' ''0'' [] [] [] [] [] = Inl DivideByZero
   \<and> (\<exists>meta. handler_GetAllMovies strict_listing ''-3'' ''500'' [] [] [] [] [] =
          Inr (SuccessWithMetaResponse 200 ''Movies retrieved successfully'' (MovieList []) meta)
        \<and> pm_page meta = - 3 \<and> pm_limit meta = 500)"
proof -
  have p2: "Atoi (Query ''2'' ''1'') = (2, False)"
    and l0: "Atoi (Query ''0'' ''20'') = (0, False)"
    and pm3: "Atoi (Query ''-3'' ''1'') = (- 3, False)"
    and l500: "Atoi (Query ''500'' ''20'') = (500, False)"
    by (simp_all add: Query_def Atoi_def is_digit_def digits_val_def digit_val_def)
  have f: "strict_listing (if (2::int) < 1 then 1 else 2)
             (if (0::int) < 1 then 20 else if 100 < (0::int) then 100 else 0)
             [] (Query [] ''updated_at'') (Query [] ''DESC'') [] [] = Inr ([], 45)"
    by (simp add: strict_listing_def)
  have g: "strict_listing (if (- 3::int) < 1 then 1 else - 3)
             (if (500::int) < 1 then 20 else if 100 < (500::int) then 100 else 500)
             [] (Query [] ''updated_at'') (Query [] ''DESC'') [] [] = Inr ([], 45)"
    by (simp add: strict_listing_def)
  note zero = handler_GetAllMovies_meta_from_raw_values
        [where FindAll = strict_listing and search = "[]" and sortBy = "[]" and order = "[]"
           and startDate = "[]" and endDate = "[]", OF p2 l0 f,
         THEN conjunct2, THEN conjunct1, rule_format]
  note raw = handler_GetAllMovies_meta_from_raw_values
        [where FindAll = strict_listing and search = "[]" and sortBy = "[]" and order = "[]"
           and startDate = "[]" and endDate = "[]", OF pm3 l500 g,
         THEN conjunct2, THEN conjunct2, rule_format]
  have "(500::int) \<noteq> 0" by simp
  with zero raw show ?thesis by blast
qed

subsection \<open>Deleting an object\<close>

lemma Split_nonempty: "Split s sep \<noteq> []"
  by (induction s) (auto split: list.splits)

lemma Split_no_sep: "sep \<notin> set s \<Longrightarrow> Split s sep = [s]"
  by (induction s) auto

lemma Split_two: "sep \<in> set s \<Longrightarrow> \<exists>p q ps. Split s sep = p # q # ps"
proof (induction s)
  case Nil
  then show ?case by simp
next
  case (Cons c cs)
  obtain p ps where sp: "Split cs sep = p # ps"
    using Split_nonempty [of cs sep] by (cases "Split cs sep") auto
  show ?case
  proof (cases "c = sep")
    case True
    then show ?thesis using sp by simp
  next
    case False
    with Cons.prems have "sep \<in> set cs" by simp
    with Cons.IH obtain p' q' ps' where "Split cs sep = p' # q' # ps'" by blast
    with False show ?thesis by simp
  qed
qed

lemma last_Split_after_sep:
  "sep \<notin> set b \<Longrightarrow> last (Split (a @ sep # b) sep) = b"
proof (induction a)
  case Nil
  then show ?case by (simp add: Split_no_sep)
next
  case (Cons c a)
  have "sep \<in> set (a @ sep # b)" by simp
  then obtain p q ps where sp: "Split (a @ sep # b) sep = p # q # ps"
    using Split_two by blast
  with Cons show ?case by (cases "c = sep") auto
qed

lemma last_Split: "last (Split s sep) = rev (takeWhile (\<lambda>c. c \<noteq> sep) (rev s))"
proof (cases "sep \<in> set s")
  case False
  then have tw: "takeWhile (\<lambda>c. c \<noteq> sep) (rev s) = rev s"
    by (auto simp: takeWhile_eq_all_conv)
  show ?thesis unfolding Split_no_sep [OF False] tw by simp
next
  case True
  then obtain a b where s: "s = a @ sep # b" and b: "sep \<notin> set b"
    using split_list_last [of sep s] by blast
  have "takeWhile (\<lambda>c. c \<noteq> sep) (rev b @ sep # rev a) = rev b"
    using b by (subst takeWhile_append2) auto
  then show ?thesis using s b by (simp add: last_Split_after_sep)
qed

lemma TrimPrefix_no_sep:
  assumes "sep \<notin> set s"
  shows "TrimPrefix s (b @ [sep]) = s"
proof -
  have "\<not> prefix (b @ [sep]) s"
  proof
    assume "prefix (b @ [sep]) s"
    then have "set (b @ [sep]) \<subseteq> set s" by (rule set_mono_prefix)
    with assms show False by simp
  qed
  then show ?thesis by (simp add: TrimPrefix_def)
qed

lemma delete_key_url:
  assumes "Contains p ''http''"
  shows "delete_key bucket p = rev (takeWhile (\<lambda>c. c \<noteq> CHR ''/'') (rev p))"
proof -
  let ?seg = "rev (takeWhile (\<lambda>c. c \<noteq> CHR ''/'') (rev p))"
  have "CHR ''/'' \<notin> set ?seg"
    using set_takeWhileD by fastforce
  then have "TrimPrefix ?seg (bucket @ ''/'') = ?seg"
    using TrimPrefix_no_sep [of "CHR ''/''" ?seg bucket] by simp
  then show ?thesis
    using assms by (simp add: delete_key_def Let_def last_Split Split_nonempty)
qed

text \<open>
  C8, as the code has it. \<open>DeleteFile\<close> removes, when the object store does not fail,
  exactly the object under \<open>delete_key\<close>. For an input that contains \<open>http\<close> that key is
  everything after the last slash of the input (a query string included); for any
  other input it is the input itself, less one leading \<open>bucket/\<close>. No query string is
  stripped and a bare key keeps its directories.
\<close>

theorem DeleteFile_removes_delete_key:
  "(fault e (calls w) = None \<longrightarrow>
      fst (DeleteFile e bucket p w) = None \<and>
      objects (snd (DeleteFile e bucket p w)) = objects w - {delete_key bucket p}) \<and>
   (Contains p ''http'' \<longrightarrow>
      delete_key bucket p = rev (takeWhile (\<lambda>c. c \<noteq> CHR ''/'') (rev p))) \<and>
   (\<not> Contains p ''http'' \<longrightarrow> delete_key bucket p = TrimPrefix p (bucket @ ''/''))"
  by (auto simp: DeleteFile_def delete_key_url tick_def Let_def) (simp add: delete_key_def)

theorem DeleteFile_removes_delete_key_witness:
  "objects (snd (DeleteFile quiet_env ''movies'' ''https://cdn.example/movies/a_1f.jpg''
      (empty_world\<lparr>objects := {''a_1f.jpg'', ''b.png''}\<rparr>))) = {''b.png''}
   \<and> delete_key ''movies'' ''movies/b.png'' = ''b.png''"
  using DeleteFile_removes_delete_key
      [of quiet_env "empty_world\<lparr>objects := {''a_1f.jpg'', ''b.png''}\<rparr>"
          "''movies''" "''https://cdn.example/movies/a_1f.jpg''"]
    DeleteFile_removes_delete_key [of quiet_env empty_world "''movies''" "''movies/b.png''"]
  by (simp add: quiet_env_def empty_world_def TrimPrefix_def)

text \<open>
  C8 as the specification states it fails: with the object \<open>a.jpg\<close> in the bucket, the
  specification's key for a presigned URL of it and for the bare key \<open>posters/a.jpg\<close>
  is \<open>a.jpg\<close>, yet after \<open>DeleteFile\<close> on either input the object is still there.
\<close>

theorem DeleteFile_keeps_query_string_counterexample:
  "spec_delete_key ''https://cdn.example/movies/a.jpg?X-Amz-Expires=900'' = ''a.jpg''
   \<and> ''a.jpg'' \<in> objects (snd (DeleteFile quiet_env ''movies''
        ''https://cdn.example/movies/a.jpg?X-Amz-Expires=900''
        (empty_world\<lparr>objects := {''a.jpg''}\<rparr>)))
   \<and> spec_delete_key ''posters/a.jpg'' = ''a.jpg''
   \<and> ''a.jpg'' \<in> objects (snd (DeleteFile quiet_env ''movies'' ''posters/a.jpg''
        (empty_world\<lparr>objects := {''a.jpg''}\<rparr>)))"
  by (simp add: spec_delete_key_def DeleteFile_def delete_key_def quiet_env_def
      empty_world_def tick_def TrimPrefix_def Let_def)

subsection \<open>Repository calls and the loop of a synchronisation run\<close>

lemma fetched_simps [simp]:
  "fetched [] = []" "fetched (xs @ ys) = fetched xs @ fetched ys"
  "fetched [FetchPage p] = [p]" "fetched [MovieInserted i] = []" "fetched [MovieSaved i] = []"
  "fetched [LogInserted i] = []"
  by (simp_all add: fetched_def)

lemma inserted_simps [simp]:
  "inserted [] = 0" "inserted (xs @ ys) = inserted xs + inserted ys"
  "inserted [FetchPage p] = 0" "inserted [MovieInserted i] = 1" "inserted [MovieSaved i] = 0"
  "inserted [LogInserted i] = 0"
  by (simp_all add: inserted_def)

lemma saved_simps [simp]:
  "saved [] = 0" "saved (xs @ ys) = saved xs + saved ys"
  "saved [FetchPage p] = 0" "saved [MovieInserted i] = 0" "saved [MovieSaved i] = 1"
  "saved [LogInserted i] = 0"
  by (simp_all add: saved_def)

lemma same_movies_refl [simp]: "same_movies w w"
  by (simp add: same_movies_def)

lemma same_movies_trans: "same_movies a b \<Longrightarrow> same_movies b c \<Longrightarrow> same_movies a c"
  by (simp add: same_movies_def)

lemma langRepo_FindOrCreate_frame:
  assumes "langRepo_FindOrCreate e c n w = (r, w')"
  shows "same_movies w w' \<and> calls w' = calls w + 1
         \<and> (fault e (calls w) = None \<longleftrightarrow> (\<exists>l. r = Inr l))"
  using assms
  by (auto simp: langRepo_FindOrCreate_def tick_def Let_def same_movies_def
      split: option.splits)

lemma langRepo_FindByCode_frame:
  assumes "langRepo_FindByCode e c w = (r, w')"
  shows "same_movies w w' \<and> calls w' = calls w + 1"
  using assms
  by (auto simp: langRepo_FindByCode_def tick_def same_movies_def split: option.splits)

lemma genreRepo_FindOrCreate_frame:
  assumes "genreRepo_FindOrCreate e c n w = (r, w')"
  shows "same_movies w w' \<and> calls w' = calls w + 1"
  using assms
  by (auto simp: genreRepo_FindOrCreate_def tick_def Let_def same_movies_def
      split: option.splits)

lemma resolve_genres_frame:
  "resolve_genres e ids acc w = (gs, w') \<Longrightarrow>
     same_movies w w' \<and> calls w' = calls w + length ids"
proof (induction ids arbitrary: acc w)
  case Nil
  then show ?case by simp
next
  case (Cons a ids)
  obtain r w1 where g: "genreRepo_FindOrCreate e a (getGenreName a) w = (r, w1)"
    by (cases "genreRepo_FindOrCreate e a (getGenreName a) w") auto
  note f = genreRepo_FindOrCreate_frame [OF g]
  show ?case
  proof (cases r)
    case (Inl err)
    with Cons.prems g have "resolve_genres e ids acc w1 = (gs, w')" by simp
    from Cons.IH [OF this] f show ?thesis
      by (auto intro: same_movies_trans)
  next
    case (Inr x)
    with Cons.prems g have "resolve_genres e ids (acc @ [x]) w1 = (gs, w')" by simp
    from Cons.IH [OF this] f show ?thesis
      by (auto intro: same_movies_trans)
  qed
qed

lemma repo_FindByTMDBID_frame:
  "repo_FindByTMDBID e t w = (r, w') \<Longrightarrow>
     w' = tick w \<and> (case fault e (calls w) of Some err \<Rightarrow> r = Inl err
                      | None \<Rightarrow> r = Inr (find (\<lambda>r. m_tmdb_id r = t) (movies w)))"
  by (auto simp: repo_FindByTMDBID_def split: option.splits)

lemma sync_item_cases [consumes 0, case_names lang_err find_err create_err created update_err updated]:
  fixes e t w a u
  defines "code \<equiv> t_original_language t"
  obtains
    (lang_err) err w1 where
      "langRepo_FindOrCreate e code (getLanguageName code) w = (Inl err, w1)"
      "sync_item e t (w, a, u) = (w1, a, u)"
  | (find_err) l w1 gs w2 err w3 where
      "langRepo_FindOrCreate e code (getLanguageName code) w = (Inr l, w1)"
      "resolve_genres e (t_genre_ids t) [] w1 = (gs, w2)"
      "repo_FindByTMDBID e (t_id t) w2 = (Inl err, w3)"
      "sync_item e t (w, a, u) = (w3, a, u)"
  | (create_err) l w1 gs w2 w3 err w4 where
      "langRepo_FindOrCreate e code (getLanguageName code) w = (Inr l, w1)"
      "resolve_genres e (t_genre_ids t) [] w1 = (gs, w2)"
      "repo_FindByTMDBID e (t_id t) w2 = (Inr None, w3)"
      "repo_Create e ((movie_of_tmdb t l)\<lparr>m_genres := gs\<rparr>) w3 = (Inl err, w4)"
      "sync_item e t (w, a, u) = (w4, a, u)"
  | (created) l w1 gs w2 w3 m w4 where
      "langRepo_FindOrCreate e code (getLanguageName code) w = (Inr l, w1)"
      "resolve_genres e (t_genre_ids t) [] w1 = (gs, w2)"
      "repo_FindByTMDBID e (t_id t) w2 = (Inr None, w3)"
      "repo_Create e ((movie_of_tmdb t l)\<lparr>m_genres := gs\<rparr>) w3 = (Inr m, w4)"
      "sync_item e t (w, a, u) = (w4, a + 1, u)"
  | (update_err) l w1 gs w2 ex w3 err w4 where
      "langRepo_FindOrCreate e code (getLanguageName code) w = (Inr l, w1)"
      "resolve_genres e (t_genre_ids t) [] w1 = (gs, w2)"
      "repo_FindByTMDBID e (t_id t) w2 = (Inr (Some ex), w3)"
      "repo_Update e ((movie_of_tmdb t l)\<lparr>m_genres := gs, m_id := m_id ex,
                        m_created_at := m_created_at ex\<rparr>) w3 = (Inl err, w4)"
      "sync_item e t (w, a, u) = (w4, a, u)"
  | (updated) l w1 gs w2 ex w3 m w4 where
      "langRepo_FindOrCreate e code (getLanguageName code) w = (Inr l, w1)"
      "resolve_genres e (t_genre_ids t) [] w1 = (gs, w2)"
      "repo_FindByTMDBID e (t_id t) w2 = (Inr (Some ex), w3)"
      "repo_Update e ((movie_of_tmdb t l)\<lparr>m_genres := gs, m_id := m_id ex,
                        m_created_at := m_created_at ex\<rparr>) w3 = (Inr m, w4)"
      "sync_item e t (w, a, u) = (w4, a, u + 1)"
proof -
  obtain rl w1 where lang: "langRepo_FindOrCreate e code (getLanguageName code) w = (rl, w1)"
    by (cases "langRepo_FindOrCreate e code (getLanguageName code) w") auto
  show thesis
  proof (cases rl)
    case (Inl err)
    with lang show thesis
      by (intro lang_err [of err w1]) (simp_all add: sync_item_def code_def)
  next
    case (Inr l)
    obtain gs w2 where gen: "resolve_genres e (t_genre_ids t) [] w1 = (gs, w2)"
      by (cases "resolve_genres e (t_genre_ids t) [] w1") auto
    obtain rf w3 where fnd: "repo_FindByTMDBID e (t_id t) w2 = (rf, w3)"
      by (cases "repo_FindByTMDBID e (t_id t) w2") auto
    have tm: "m_tmdb_id ((movie_of_tmdb t l)\<lparr>m_genres := gs\<rparr>) = t_id t"
      by (simp add: movie_of_tmdb_def)
    show thesis
    proof (cases rf)
      case (Inl err)
      with lang Inr gen fnd tm show thesis
        by (intro find_err [of l w1 gs w2 err w3]) (simp_all add: sync_item_def code_def)
    next
      case rfr: (Inr found)
      show thesis
      proof (cases found)
        case None
        obtain rc w4 where cr:
          "repo_Create e ((movie_of_tmdb t l)\<lparr>m_genres := gs\<rparr>) w3 = (rc, w4)"
          by (cases "repo_Create e ((movie_of_tmdb t l)\<lparr>m_genres := gs\<rparr>) w3") auto
        show thesis
        proof (cases rc)
          case (Inl err)
          with lang Inr gen fnd rfr None cr tm show thesis
            by (intro create_err [of l w1 gs w2 w3 err w4])
               (simp_all add: sync_item_def code_def)
        next
          case (Inr m)
          with lang \<open>rl = Inr l\<close> gen fnd rfr None cr tm show thesis
            by (intro created [of l w1 gs w2 w3 m w4])
               (simp_all add: sync_item_def code_def)
        qed
      next
        case (Some ex)
        let ?mv = "(movie_of_tmdb t l)\<lparr>m_genres := gs, m_id := m_id ex,
                        m_created_at := m_created_at ex\<rparr>"
        obtain ru w4 where up: "repo_Update e ?mv w3 = (ru, w4)"
          by (cases "repo_Update e ?mv w3") auto
        show thesis
        proof (cases ru)
          case (Inl err)
          with lang Inr gen fnd rfr Some up tm show thesis
            by (intro update_err [of l w1 gs w2 ex w3 err w4])
               (simp_all add: sync_item_def code_def)
        next
          case (Inr m)
          with lang \<open>rl = Inr l\<close> gen fnd rfr Some up tm show thesis
            by (intro updated [of l w1 gs w2 ex w3 m w4])
               (simp_all add: sync_item_def code_def)
        qed
      qed
    qed
  qed
qed

lemma repo_Create_err: "repo_Create e m w = (Inl err, w') \<Longrightarrow> w' = tick w"
  by (auto simp: repo_Create_def Let_def split: option.splits if_splits)

lemma repo_Create_ok:
  assumes "repo_Create e m w = (Inr m', w')"
  shows "fault e (calls w) = None \<and> \<not> list_ex (\<lambda>r. m_tmdb_id r = m_tmdb_id m) (movies w)
     \<and> m' = m\<lparr>m_id := movie_seq w + 1,
               m_created_at := (if m_created_at m = 0 then now e (calls w) else m_created_at m),
               m_updated_at := (if m_updated_at m = 0 then now e (calls w) else m_updated_at m)\<rparr>
     \<and> movies w' = movies w @ [m'\<lparr>m_genres := []\<rparr>]
     \<and> movie_seq w' = movie_seq w + 1
     \<and> movie_genres w' = link_genres (movie_seq w + 1) (m_genres m) (movie_genres w)
     \<and> effects w' = effects w @ [MovieInserted (movie_seq w + 1)]
     \<and> sync_logs w' = sync_logs w \<and> log_seq w' = log_seq w \<and> objects w' = objects w
     \<and> calls w' = calls w + 1"
  using assms
  by (auto simp: repo_Create_def Let_def tick_def split: option.splits if_splits)

lemma repo_Create_succeeds:
  assumes "fault e (calls w) = None" "\<not> list_ex (\<lambda>r. m_tmdb_id r = m_tmdb_id m) (movies w)"
  shows "\<exists>m' w'. repo_Create e m w = (Inr m', w')"
  using assms by (simp add: repo_Create_def Let_def)

lemma repo_Update_err: "repo_Update e m w = (Inl err, w') \<Longrightarrow> w' = tick w"
  by (auto simp: repo_Update_def Let_def dest: repo_Create_err split: option.splits if_splits)

lemma find_SomeD: "find P xs = Some x \<Longrightarrow> x \<in> set xs \<and> P x"
  by (auto simp: find_Some_iff)

lemma repo_Update_ok:
  assumes up: "repo_Update e m w = (Inr m', w')"
    and ex: "ex \<in> set (movies w)" "m_tmdb_id ex = m_tmdb_id m" "m_id ex = m_id m"
  shows "m_id ex \<noteq> 0 \<and> fault e (calls w) = None
     \<and> \<not> list_ex (\<lambda>r. m_tmdb_id r = m_tmdb_id m \<and> m_id r \<noteq> m_id m) (movies w)
     \<and> m' = m\<lparr>m_updated_at := now e (calls w)\<rparr>
     \<and> movies w' = map (\<lambda>r. if m_id r = m_id m then m'\<lparr>m_genres := []\<rparr> else r) (movies w)
     \<and> movie_seq w' = movie_seq w
     \<and> movie_genres w' = link_genres (m_id m) (m_genres m) (movie_genres w)
     \<and> effects w' = effects w @ [MovieSaved (m_id m)]
     \<and> sync_logs w' = sync_logs w \<and> log_seq w' = log_seq w \<and> objects w' = objects w
     \<and> calls w' = calls w + 1"
proof -
  have dup: "list_ex (\<lambda>r. m_tmdb_id r = m_tmdb_id m) (movies w)"
    using ex by (auto simp: list_ex_iff)
  have nz: "m_id m \<noteq> 0"
  proof
    assume "m_id m = 0"
    with up have "repo_Create e m w = (Inr m', w')" by (simp add: repo_Update_def)
    from repo_Create_ok [OF this] dup show False by simp
  qed
  have here: "list_ex (\<lambda>r. m_id r = m_id m) (movies w)"
    using ex by (auto simp: list_ex_iff)
  from up nz here show ?thesis
    using ex(3)
    by (auto simp: repo_Update_def Let_def tick_def split: option.splits if_splits)
qed

lemma repo_Update_succeeds:
  assumes "fault e (calls w) = None" "m_id m \<noteq> 0"
    "\<not> list_ex (\<lambda>r. m_tmdb_id r = m_tmdb_id m \<and> m_id r \<noteq> m_id m) (movies w)"
  shows "\<exists>m' w'. repo_Update e m w = (Inr m', w')"
  using assms by (simp add: repo_Update_def Let_def)

lemma repo_CreateSyncLog_cases:
  "repo_CreateSyncLog e l w = ((d, l'), w') \<Longrightarrow>
     (case fault e (calls w) of
        Some err \<Rightarrow> d = Some err \<and> l' = l \<and> w' = tick w
      | None \<Rightarrow> d = None \<and> l' = l\<lparr>sl_id := log_seq w + 1, sl_created_at := now e (calls w)\<rparr>
          \<and> sync_logs w' = sync_logs w @ [l'] \<and> movies w' = movies w
          \<and> calls w' = calls w + 1
          \<and> effects w' = effects w @ [LogInserted (log_seq w + 1)])"
  by (auto simp: repo_CreateSyncLog_def Let_def tick_def split: option.splits)

lemma counts_agree_refl [simp]: "counts_agree st st"
  by (simp add: counts_agree_def split: prod.splits)

lemma counts_agree_trans:
  "counts_agree s1 s2 \<Longrightarrow> counts_agree s2 s3 \<Longrightarrow> counts_agree s1 s3"
  by (auto simp: counts_agree_def split: prod.splits)

lemma counts_agree_same:
  "effects w' = effects w \<Longrightarrow> movies w' = movies w \<Longrightarrow> sync_logs w' = sync_logs w \<Longrightarrow>
   log_seq w' = log_seq w \<Longrightarrow> counts_agree (w, a, u) (w', a, u)"
  by (simp add: counts_agree_def)

lemma tick_fields [simp]:
  "movies (tick w) = movies w" "effects (tick w) = effects w" "sync_logs (tick w) = sync_logs w"
  "log_seq (tick w) = log_seq w" "movie_seq (tick w) = movie_seq w" "calls (tick w) = calls w + 1"
  "movie_genres (tick w) = movie_genres w" "objects (tick w) = objects w"
  "languages (tick w) = languages w" "genres (tick w) = genres w"
  by (simp_all add: tick_def)

lemma sync_item_counts:
  assumes "sync_item e t (w, a, u) = (w', a', u')"
  shows "counts_agree (w, a, u) (w', a', u') \<and> fetched (effects w') = fetched (effects w)"
proof (cases rule: sync_item_cases [of e t w a u])
  case (lang_err err w1)
  from langRepo_FindOrCreate_frame [OF lang_err(1)] lang_err(2) assms show ?thesis
    by (auto simp: same_movies_def counts_agree_def)
next
  case (find_err l w1 gs w2 err w3)
  from langRepo_FindOrCreate_frame [OF find_err(1)] resolve_genres_frame [OF find_err(2)]
    repo_FindByTMDBID_frame [OF find_err(3)] find_err(4) assms
  show ?thesis
    by (auto simp: same_movies_def counts_agree_def)
next
  case (create_err l w1 gs w2 w3 err w4)
  from langRepo_FindOrCreate_frame [OF create_err(1)] resolve_genres_frame [OF create_err(2)]
    repo_FindByTMDBID_frame [OF create_err(3)] repo_Create_err [OF create_err(4)]
    create_err(5) assms
  show ?thesis
    by (auto simp: same_movies_def counts_agree_def)
next
  case (created l w1 gs w2 w3 m w4)
  from langRepo_FindOrCreate_frame [OF created(1)] resolve_genres_frame [OF created(2)]
    repo_FindByTMDBID_frame [OF created(3)] repo_Create_ok [OF created(4)]
    created(5) assms
  show ?thesis
    by (auto simp: same_movies_def counts_agree_def)
next
  case (update_err l w1 gs w2 ex w3 err w4)
  from langRepo_FindOrCreate_frame [OF update_err(1)] resolve_genres_frame [OF update_err(2)]
    repo_FindByTMDBID_frame [OF update_err(3)] repo_Update_err [OF update_err(4)]
    update_err(5) assms
  show ?thesis
    by (auto simp: same_movies_def counts_agree_def)
next
  case (updated l w1 gs w2 ex w3 m w4)
  note f = repo_FindByTMDBID_frame [OF updated(3)]
  then have fnd: "find (\<lambda>r. m_tmdb_id r = t_id t) (movies w2) = Some ex"
    by (auto split: option.splits)
  have w3: "w3 = tick w2" using f by simp
  have pre: "ex \<in> set (movies w3)" "m_tmdb_id ex = t_id t"
    using find_SomeD [OF fnd] w3 by simp_all
  from repo_Update_ok [OF updated(4), of ex] pre
  have up: "movies w4 = map (\<lambda>r. if m_id r = m_id ex then m\<lparr>m_genres := []\<rparr> else r) (movies w3)"
    "effects w4 = effects w3 @ [MovieSaved (m_id ex)]"
    "sync_logs w4 = sync_logs w3" "log_seq w4 = log_seq w3"
    by (simp_all add: movie_of_tmdb_def)
  from langRepo_FindOrCreate_frame [OF updated(1)] resolve_genres_frame [OF updated(2)]
    w3 up updated(5) assms
  show ?thesis
    by (auto simp: same_movies_def counts_agree_def)
qed

lemma sync_items_counts:
  "sync_items e ts (w, a, u) = (w', a', u') \<Longrightarrow>
     counts_agree (w, a, u) (w', a', u') \<and> fetched (effects w') = fetched (effects w)"
proof (induction ts arbitrary: w a u)
  case Nil
  then show ?case by simp
next
  case (Cons t ts)
  obtain w1 a1 u1 where one: "sync_item e t (w, a, u) = (w1, a1, u1)"
    by (cases "sync_item e t (w, a, u)") auto
  with Cons.prems have rest: "sync_items e ts (w1, a1, u1) = (w', a', u')" by simp
  from sync_item_counts [OF one] Cons.IH [OF rest] show ?case
    by (auto intro: counts_agree_trans)
qed

text \<open>The whole loop: either every page from \<open>page\<close> to \<open>pages\<close> was fetched and the
  success log was handed to the store, or the first page whose fetch failed ended the
  run and the failure log was handed to the store.\<close>

lemma sync_pages_result:
  assumes "sync_pages e lg page pages (w, a, u) = ((l, err), w')"
  shows "\<exists>wf af uf d.
     counts_agree (w, a, u) (wf, af, uf)
     \<and> ((err = None
          \<and> (\<forall>j. page \<le> j \<and> j \<le> pages \<longrightarrow> fetch_ok e j)
          \<and> fetched (effects wf) = fetched (effects w) @ [page..pages]
          \<and> repo_CreateSyncLog e
               (lg\<lparr>sl_status := ''success'', sl_movies_added := af,
                    sl_movies_updated := uf\<rparr>) wf = ((d, l), w'))
        \<or> (\<exists>k msg. err = Some msg \<and> page \<le> k \<and> k \<le> pages
              \<and> fetch_page e k = Inl msg
              \<and> (\<forall>j. page \<le> j \<and> j < k \<longrightarrow> fetch_ok e j)
              \<and> fetched (effects wf) = fetched (effects w) @ [page..k]
              \<and> repo_CreateSyncLog e (lg\<lparr>sl_error_message := fetch_error_message k msg\<rparr>) wf
                  = ((d, l), w')))"
  using assms
proof (induction e lg page pages "(w, a, u)" arbitrary: w a u rule: sync_pages.induct)
  case (1 e lg page pages w a u)
  show ?case
  proof (cases "page \<le> pages")
    case False
    then obtain d where fin: "repo_CreateSyncLog e
               (lg\<lparr>sl_status := ''success'', sl_movies_added := a,
                    sl_movies_updated := u\<rparr>) w = ((d, l), w')" "err = None"
      using "1.prems" by (auto simp: sync_pages.simps [of e lg page pages] split: prod.splits)
    show ?thesis
      by (rule exI [of _ w], rule exI [of _ a], rule exI [of _ u], rule exI [of _ d]) (use False fin in auto)
  next
    case True
    let ?w1 = "tick (w\<lparr>effects := effects w @ [FetchPage page]\<rparr>)"
    have fw: "fetchPopularMoviesFromTMDB e page w = (fetch_page e page, ?w1)"
      by (simp add: fetchPopularMoviesFromTMDB_def)
    have ag1: "counts_agree (w, a, u) (?w1, a, u)"
      by (simp add: counts_agree_def)
    show ?thesis
    proof (cases "fetch_page e page")
      case (Inl msg)
      then obtain d where lgd: "repo_CreateSyncLog e
            (lg\<lparr>sl_error_message := fetch_error_message page msg\<rparr>) ?w1 = ((d, l), w')"
          and er: "err = Some msg"
        using "1.prems" True fw
        by (auto simp: sync_pages.simps [of e lg page pages] fetch_error_message_def
            split: prod.splits)
      have fp: "fetched (effects ?w1) = fetched (effects w) @ [page..page]"
        by simp
      show ?thesis
        by (rule exI [of _ ?w1], rule exI [of _ a], rule exI [of _ u], rule exI [of _ d]) (use fp lgd er Inl True ag1 in auto)
    next
      case (Inr items)
      obtain w2 a2 u2 where its: "sync_items e items (?w1, a, u) = (w2, a2, u2)"
        by (cases "sync_items e items (?w1, a, u)") auto
      have rec: "sync_pages e lg (page + 1) pages (w2, a2, u2) = ((l, err), w')"
        using "1.prems" True fw Inr its
        by (simp add: sync_pages.simps [of e lg page pages])
      note ag2 = sync_items_counts [OF its]
      have ag: "counts_agree (w, a, u) (w2, a2, u2)"
        using ag1 ag2 by (blast intro: counts_agree_trans)
      have fe: "fetched (effects w2) = fetched (effects w) @ [page]"
        using ag2 by simp
      have ok: "fetch_ok e page" using Inr by (simp add: fetch_ok_def)
      from "1.hyps" [OF refl refl True fw [symmetric] Inr its rec]
      obtain wf af uf d where
        agf: "counts_agree (w2, a2, u2) (wf, af, uf)" and
        alt: "(err = None
          \<and> (\<forall>j. page + 1 \<le> j \<and> j \<le> pages \<longrightarrow> fetch_ok e j)
          \<and> fetched (effects wf) = fetched (effects w2) @ [page + 1..pages]
          \<and> repo_CreateSyncLog e
               (lg\<lparr>sl_status := ''success'', sl_movies_added := af,
                    sl_movies_updated := uf\<rparr>) wf = ((d, l), w'))
        \<or> (\<exists>k msg. err = Some msg \<and> page + 1 \<le> k \<and> k \<le> pages
              \<and> fetch_page e k = Inl msg
              \<and> (\<forall>j. page + 1 \<le> j \<and> j < k \<longrightarrow> fetch_ok e j)
              \<and> fetched (effects wf) = fetched (effects w2) @ [page + 1..k]
              \<and> repo_CreateSyncLog e (lg\<lparr>sl_error_message := fetch_error_message k msg\<rparr>) wf
                  = ((d, l), w'))"
        by blast
      have step: "fetch_ok e j" if "page \<le> j" "page + 1 \<le> j \<longrightarrow> fetch_ok e j" for j
      proof (cases "j = page")
        case True
        with ok show ?thesis by simp
      next
        case False
        with that(1) have "page + 1 \<le> j" by simp
        with that(2) show ?thesis by simp
      qed
      from alt show ?thesis
      proof
        assume s: "err = None
          \<and> (\<forall>j. page + 1 \<le> j \<and> j \<le> pages \<longrightarrow> fetch_ok e j)
          \<and> fetched (effects wf) = fetched (effects w2) @ [page + 1..pages]
          \<and> repo_CreateSyncLog e
               (lg\<lparr>sl_status := ''success'', sl_movies_added := af,
                    sl_movies_updated := uf\<rparr>) wf = ((d, l), w')"
        have "fetched (effects wf) = fetched (effects w) @ [page..pages]"
          using s fe True by (simp add: upto_rec1)
        moreover have "\<forall>j. page \<le> j \<and> j \<le> pages \<longrightarrow> fetch_ok e j"
        proof (intro allI impI)
          fix j assume j: "page \<le> j \<and> j \<le> pages"
          show "fetch_ok e j" by (rule step) (use j s in auto)
        qed
        moreover note counts_agree_trans [OF ag agf]
        ultimately have "counts_agree (w, a, u) (wf, af, uf) \<and> err = None
          \<and> (\<forall>j. page \<le> j \<and> j \<le> pages \<longrightarrow> fetch_ok e j)
          \<and> fetched (effects wf) = fetched (effects w) @ [page..pages]
          \<and> repo_CreateSyncLog e
               (lg\<lparr>sl_status := ''success'', sl_movies_added := af,
                    sl_movies_updated := uf\<rparr>) wf = ((d, l), w')"
          using s by simp
        then show ?thesis by blast
      next
        assume "\<exists>k msg. err = Some msg \<and> page + 1 \<le> k \<and> k \<le> pages
              \<and> fetch_page e k = Inl msg
              \<and> (\<forall>j. page + 1 \<le> j \<and> j < k \<longrightarrow> fetch_ok e j)
              \<and> fetched (effects wf) = fetched (effects w2) @ [page + 1..k]
              \<and> repo_CreateSyncLog e (lg\<lparr>sl_error_message := fetch_error_message k msg\<rparr>) wf
                  = ((d, l), w')"
        then obtain k msg where f: "err = Some msg" "page + 1 \<le> k" "k \<le> pages"
              "fetch_page e k = Inl msg"
              "\<forall>j. page + 1 \<le> j \<and> j < k \<longrightarrow> fetch_ok e j"
              "fetched (effects wf) = fetched (effects w2) @ [page + 1..k]"
              "repo_CreateSyncLog e (lg\<lparr>sl_error_message := fetch_error_message k msg\<rparr>) wf
                  = ((d, l), w')"
          by blast
        have "fetched (effects wf) = fetched (effects w) @ [page..k]"
          using f fe by (simp add: upto_rec1)
        moreover have "\<forall>j. page \<le> j \<and> j < k \<longrightarrow> fetch_ok e j"
        proof (intro allI impI)
          fix j assume j: "page \<le> j \<and> j < k"
          show "fetch_ok e j" by (rule step) (use j f(5) in auto)
        qed
        moreover have "page \<le> k" using f(2) by simp
        moreover note counts_agree_trans [OF ag agf]
        ultimately have "counts_agree (w, a, u) (wf, af, uf) \<and> err = Some msg \<and> page \<le> k
              \<and> k \<le> pages \<and> fetch_page e k = Inl msg
              \<and> (\<forall>j. page \<le> j \<and> j < k \<longrightarrow> fetch_ok e j)
              \<and> fetched (effects wf) = fetched (effects w) @ [page..k]
              \<and> repo_CreateSyncLog e (lg\<lparr>sl_error_message := fetch_error_message k msg\<rparr>) wf
                  = ((d, l), w')"
          using f by simp
        then show ?thesis by blast
      qed
    qed
  qed
qed

lemma log_insert_outcome:
  assumes "repo_CreateSyncLog e l w = ((d, l'), w')"
  shows "calls w' = calls w + 1 \<and> movies w' = movies w
     \<and> fetched (effects w') = fetched (effects w)
     \<and> inserted (effects w') = inserted (effects w)
     \<and> saved (effects w') = saved (effects w)
     \<and> sl_status l' = sl_status l \<and> sl_error_message l' = sl_error_message l
     \<and> sl_movies_added l' = sl_movies_added l \<and> sl_movies_updated l' = sl_movies_updated l
     \<and> sl_sync_type l' = sl_sync_type l
     \<and> (fault e (calls w) = None \<longrightarrow> sync_logs w' = sync_logs w @ [l'])
     \<and> (fault e (calls w) \<noteq> None \<longrightarrow> sync_logs w' = sync_logs w)"
  using repo_CreateSyncLog_cases [OF assms]
  by (cases "fault e (calls w)") auto

lemma SyncMoviesFromTMDB_result:
  assumes "SyncMoviesFromTMDB e pages w = ((l, err), w')"
  shows "\<exists>wf af uf d lg.
     counts_agree (w, 0, 0) (wf, af, uf)
     \<and> sl_status lg = ''failed'' \<and> sl_error_message lg = [] \<and> sl_sync_type lg = ''manual''
     \<and> ((err = None
          \<and> (\<forall>j. 1 \<le> j \<and> j \<le> effective_pages pages \<longrightarrow> fetch_ok e j)
          \<and> fetched (effects wf) = fetched (effects w) @ [1..effective_pages pages]
          \<and> repo_CreateSyncLog e
               (lg\<lparr>sl_status := ''success'', sl_movies_added := af,
                    sl_movies_updated := uf\<rparr>) wf = ((d, l), w'))
        \<or> (\<exists>k msg. err = Some msg \<and> 1 \<le> k \<and> k \<le> effective_pages pages
              \<and> fetch_page e k = Inl msg
              \<and> (\<forall>j. 1 \<le> j \<and> j < k \<longrightarrow> fetch_ok e j)
              \<and> fetched (effects wf) = fetched (effects w) @ [1..k]
              \<and> repo_CreateSyncLog e (lg\<lparr>sl_error_message := fetch_error_message k msg\<rparr>) wf
                  = ((d, l), w')))"
proof -
  let ?lg = "\<lparr>sl_id = 0, sl_sync_type = ''manual'', sl_status = ''failed'',
                     sl_movies_added = 0, sl_movies_updated = 0, sl_error_message = [],
                     sl_synced_at = now e (calls w), sl_created_at = 0\<rparr>"
  have "sync_pages e ?lg 1 (effective_pages pages) (w, 0, 0) = ((l, err), w')"
    using assms by (simp add: SyncMoviesFromTMDB_def Let_def split: if_splits)
  from sync_pages_result [OF this] obtain wf af uf d where
    r: "counts_agree (w, 0, 0) (wf, af, uf)
     \<and> ((err = None
          \<and> (\<forall>j. 1 \<le> j \<and> j \<le> effective_pages pages \<longrightarrow> fetch_ok e j)
          \<and> fetched (effects wf) = fetched (effects w) @ [1..effective_pages pages]
          \<and> repo_CreateSyncLog e
               (?lg\<lparr>sl_status := ''success'', sl_movies_added := af,
                    sl_movies_updated := uf\<rparr>) wf = ((d, l), w'))
        \<or> (\<exists>k msg. err = Some msg \<and> 1 \<le> k \<and> k \<le> effective_pages pages
              \<and> fetch_page e k = Inl msg
              \<and> (\<forall>j. 1 \<le> j \<and> j < k \<longrightarrow> fetch_ok e j)
              \<and> fetched (effects wf) = fetched (effects w) @ [1..k]
              \<and> repo_CreateSyncLog e (?lg\<lparr>sl_error_message := fetch_error_message k msg\<rparr>) wf
                  = ((d, l), w')))"
    by blast
  show ?thesis
    by (rule exI [of _ wf], rule exI [of _ af], rule exI [of _ uf], rule exI [of _ d],
        rule exI [of _ ?lg]) (use r in simp)
qed

lemma fetch_error_message_nonempty: "fetch_error_message k msg \<noteq> []"
  by (simp add: fetch_error_message_def)

lemma find_None_list_ex: "find P xs = None \<Longrightarrow> \<not> list_ex P xs"
  by (simp add: find_None_iff list_ex_iff)

lemma sync_item_skipped:
  assumes run: "sync_item e t (w, a, u) = (w', a', u')"
    and flt: "fault e (calls w) \<noteq> None
              \<or> fault e (calls w + 1 + length (t_genre_ids t)) \<noteq> None
              \<or> fault e (calls w + 2 + length (t_genre_ids t)) \<noteq> None"
  shows "a' = a \<and> u' = u \<and> movies w' = movies w \<and> movie_genres w' = movie_genres w
         \<and> effects w' = effects w"
proof (cases rule: sync_item_cases [of e t w a u])
  case (lang_err err w1)
  from langRepo_FindOrCreate_frame [OF lang_err(1)] lang_err(2) run show ?thesis
    by (auto simp: same_movies_def)
next
  case (find_err l w1 gs w2 err w3)
  from langRepo_FindOrCreate_frame [OF find_err(1)] resolve_genres_frame [OF find_err(2)]
    repo_FindByTMDBID_frame [OF find_err(3)] find_err(4) run
  show ?thesis
    by (auto simp: same_movies_def)
next
  case (create_err l w1 gs w2 w3 err w4)
  from langRepo_FindOrCreate_frame [OF create_err(1)] resolve_genres_frame [OF create_err(2)]
    repo_FindByTMDBID_frame [OF create_err(3)] repo_Create_err [OF create_err(4)]
    create_err(5) run
  show ?thesis
    by (auto simp: same_movies_def)
next
  case (created l w1 gs w2 w3 m w4)
  from langRepo_FindOrCreate_frame [OF created(1)] resolve_genres_frame [OF created(2)]
    repo_FindByTMDBID_frame [OF created(3)] repo_Create_ok [OF created(4)]
  have "fault e (calls w) = None" "fault e (calls w + 1 + length (t_genre_ids t)) = None"
    "fault e (calls w + 2 + length (t_genre_ids t)) = None"
    by (auto split: option.splits simp: add.commute add.left_commute)
  with flt show ?thesis by simp
next
  case (update_err l w1 gs w2 ex w3 err w4)
  from langRepo_FindOrCreate_frame [OF update_err(1)] resolve_genres_frame [OF update_err(2)]
    repo_FindByTMDBID_frame [OF update_err(3)] repo_Update_err [OF update_err(4)]
    update_err(5) run
  show ?thesis
    by (auto simp: same_movies_def)
next
  case (updated l w1 gs w2 ex w3 m w4)
  note f = repo_FindByTMDBID_frame [OF updated(3)]
  then have fnd: "find (\<lambda>r. m_tmdb_id r = t_id t) (movies w2) = Some ex"
    by (auto split: option.splits)
  have w3: "w3 = tick w2" using f by simp
  have pre: "ex \<in> set (movies w3)" "m_tmdb_id ex = t_id t"
    using find_SomeD [OF fnd] w3 by simp_all
  from repo_Update_ok [OF updated(4), of ex] pre
  have "fault e (calls w3) = None" by (simp add: movie_of_tmdb_def)
  with langRepo_FindOrCreate_frame [OF updated(1)] resolve_genres_frame [OF updated(2)] f w3
  have "fault e (calls w) = None" "fault e (calls w + 1 + length (t_genre_ids t)) = None"
    "fault e (calls w + 2 + length (t_genre_ids t)) = None"
    by (auto split: option.splits simp: add.commute add.left_commute)
  with flt show ?thesis by simp
qed

lemma sync_item_counted:
  assumes run: "sync_item e t (w, a, u) = (w', a', u')"
    and ok: "db_ok w"
    and nf: "fault e (calls w) = None"
            "fault e (calls w + 1 + length (t_genre_ids t)) = None"
            "fault e (calls w + 2 + length (t_genre_ids t)) = None"
  shows "a' + u' = a + u + 1"
proof (cases rule: sync_item_cases [of e t w a u])
  case (lang_err err w1)
  from langRepo_FindOrCreate_frame [OF lang_err(1)] nf(1) show ?thesis by simp
next
  case (find_err l w1 gs w2 err w3)
  from langRepo_FindOrCreate_frame [OF find_err(1)] resolve_genres_frame [OF find_err(2)]
  have "calls w2 = calls w + 1 + length (t_genre_ids t)" by simp
  with repo_FindByTMDBID_frame [OF find_err(3)] nf(2) show ?thesis by simp
next
  case (create_err l w1 gs w2 w3 err w4)
  from langRepo_FindOrCreate_frame [OF create_err(1)] resolve_genres_frame [OF create_err(2)]
  have c2: "calls w2 = calls w + 1 + length (t_genre_ids t)" by simp
  from repo_FindByTMDBID_frame [OF create_err(3)] nf(2) c2
  have w3: "w3 = tick w2" and fnd: "find (\<lambda>r. m_tmdb_id r = t_id t) (movies w2) = None"
    by simp_all
  have "fault e (calls w3) = None" using w3 c2 nf(3) by (simp add: add.commute add.left_commute)
  moreover have "\<not> list_ex (\<lambda>r. m_tmdb_id r = m_tmdb_id ((movie_of_tmdb t l)\<lparr>m_genres := gs\<rparr>))
                     (movies w3)"
    using find_None_list_ex [OF fnd] w3 by (simp add: movie_of_tmdb_def)
  ultimately show ?thesis
    using repo_Create_succeeds [of e w3 "(movie_of_tmdb t l)\<lparr>m_genres := gs\<rparr>"] create_err(4)
    by simp
next
  case (created l w1 gs w2 w3 m w4)
  with run show ?thesis by simp
next
  case (update_err l w1 gs w2 ex w3 err w4)
  let ?mv = "(movie_of_tmdb t l)\<lparr>m_genres := gs, m_id := m_id ex,
                        m_created_at := m_created_at ex\<rparr>"
  from langRepo_FindOrCreate_frame [OF update_err(1)] resolve_genres_frame [OF update_err(2)]
  have c2: "calls w2 = calls w + 1 + length (t_genre_ids t)" and mv: "movies w2 = movies w"
    by (simp_all add: same_movies_def)
  from repo_FindByTMDBID_frame [OF update_err(3)] nf(2) c2
  have w3: "w3 = tick w2" and fnd: "find (\<lambda>r. m_tmdb_id r = t_id t) (movies w2) = Some ex"
    by simp_all
  have ex: "ex \<in> set (movies w)" "m_tmdb_id ex = t_id t"
    using find_SomeD [OF fnd] mv by simp_all
  have "fault e (calls w3) = None" using w3 c2 nf(3) by (simp add: add.commute add.left_commute)
  moreover have "m_id ?mv \<noteq> 0"
    using ok ex(1) by (auto simp: db_ok_def list_all_iff)
  moreover have "\<not> list_ex (\<lambda>r. m_tmdb_id r = m_tmdb_id ?mv \<and> m_id r \<noteq> m_id ?mv) (movies w3)"
  proof
    assume "list_ex (\<lambda>r. m_tmdb_id r = m_tmdb_id ?mv \<and> m_id r \<noteq> m_id ?mv) (movies w3)"
    then obtain r where r: "r \<in> set (movies w)" "m_tmdb_id r = t_id t" "m_id r \<noteq> m_id ex"
      using w3 mv by (auto simp: list_ex_iff movie_of_tmdb_def)
    from ok have "inj_on m_tmdb_id (set (movies w))"
      by (simp add: db_ok_def distinct_map)
    with r(1,2) ex have "r = ex" by (simp add: inj_on_def)
    with r(3) show False by simp
  qed
  ultimately show ?thesis
    using repo_Update_succeeds [of e w3 ?mv] update_err(4) by simp
next
  case (updated l w1 gs w2 ex w3 m w4)
  with run show ?thesis by simp
qed

lemma sync_success_run:
  assumes all: "\<forall>j. 1 \<le> j \<and> j \<le> effective_pages pages \<longrightarrow> fetch_ok e j"
    and run: "SyncMoviesFromTMDB e pages w = ((l, err), w')"
  shows "err = None \<and> sl_status l = ''success''
     \<and> fetched (effects w') = fetched (effects w) @ [1..effective_pages pages]
     \<and> sl_movies_added l = int (inserted (effects w')) - int (inserted (effects w))
     \<and> sl_movies_updated l = int (saved (effects w')) - int (saved (effects w))
     \<and> sl_movies_added l = int (length (movies w')) - int (length (movies w))
     \<and> 0 < calls w'
     \<and> (fault e (calls w' - 1) = None \<longrightarrow> sync_logs w' = sync_logs w @ [l])
     \<and> (fault e (calls w' - 1) \<noteq> None \<longrightarrow> sync_logs w' = sync_logs w)"
proof -
  from SyncMoviesFromTMDB_result [OF run] obtain wf af uf d lg where
    ag: "counts_agree (w, 0, 0) (wf, af, uf)" and
    alt: "(err = None
          \<and> (\<forall>j. 1 \<le> j \<and> j \<le> effective_pages pages \<longrightarrow> fetch_ok e j)
          \<and> fetched (effects wf) = fetched (effects w) @ [1..effective_pages pages]
          \<and> repo_CreateSyncLog e
               (lg\<lparr>sl_status := ''success'', sl_movies_added := af,
                    sl_movies_updated := uf\<rparr>) wf = ((d, l), w'))
        \<or> (\<exists>k msg. err = Some msg \<and> 1 \<le> k \<and> k \<le> effective_pages pages
              \<and> fetch_page e k = Inl msg
              \<and> (\<forall>j. 1 \<le> j \<and> j < k \<longrightarrow> fetch_ok e j)
              \<and> fetched (effects wf) = fetched (effects w) @ [1..k]
              \<and> repo_CreateSyncLog e (lg\<lparr>sl_error_message := fetch_error_message k msg\<rparr>) wf
                  = ((d, l), w'))"
    by blast
  have "\<not> (\<exists>k msg. 1 \<le> k \<and> k \<le> effective_pages pages \<and> fetch_page e k = Inl msg)"
    using all by (auto simp: fetch_ok_def)
  with alt have s: "err = None"
      "fetched (effects wf) = fetched (effects w) @ [1..effective_pages pages]"
      "repo_CreateSyncLog e
               (lg\<lparr>sl_status := ''success'', sl_movies_added := af,
                    sl_movies_updated := uf\<rparr>) wf = ((d, l), w')"
    by blast+
  note lo = log_insert_outcome [OF s(3)]
  have c: "calls w' - 1 = calls wf" "0 < calls w'" using lo by simp_all
  from ag have cnt: "af = int (inserted (effects wf)) - int (inserted (effects w))"
    "uf = int (saved (effects wf)) - int (saved (effects w))"
    "af = int (length (movies wf)) - int (length (movies w))"
    "sync_logs wf = sync_logs w"
    by (simp_all add: counts_agree_def)
  show ?thesis
    using lo s(1,2) c cnt by simp
qed

subsection \<open>A synchronisation run\<close>

lemma empty_world_fields [simp]:
  "movies empty_world = []" "sync_logs empty_world = []" "effects empty_world = []"
  "movie_genres empty_world = []" "calls empty_world = 0" "movie_seq empty_world = 0"
  "objects empty_world = {}" "languages empty_world = []" "genres empty_world = []"
  by (simp_all add: empty_world_def)

text \<open>
  C2. When the fetch of page \<open>k\<close> fails (the pages before it having been fetched), the
  run fetches exactly the pages \<open>1..k\<close> and none after \<open>k\<close>, and returns that error
  together with a log with status \<open>failed\<close> and the non-empty message
  \<open>failed to fetch page k: <error>\<close>. The log is handed to the store in the last call
  of the run: when that insert succeeds, the log table gains exactly this log (and
  when it does not, the table stays as it was).
\<close>

theorem SyncMoviesFromTMDB_fetch_failure:
  assumes fail: "fetch_page e k = Inl msg"
    and k: "1 \<le> k" "k \<le> effective_pages pages"
    and before: "\<forall>j. 1 \<le> j \<and> j < k \<longrightarrow> fetch_ok e j"
  shows "sync_error_of e pages w = Some msg
     \<and> fetched (effects (sync_world_of e pages w)) = fetched (effects w) @ [1..k]
     \<and> sl_status (sync_log_of e pages w) = ''failed''
     \<and> sl_error_message (sync_log_of e pages w)
         = ''failed to fetch page '' @ Itoa k @ '': '' @ msg
     \<and> sl_error_message (sync_log_of e pages w) \<noteq> []
     \<and> 0 < calls (sync_world_of e pages w)
     \<and> (fault e (calls (sync_world_of e pages w) - 1) = None \<longrightarrow>
          sync_logs (sync_world_of e pages w) = sync_logs w @ [sync_log_of e pages w])
     \<and> (fault e (calls (sync_world_of e pages w) - 1) \<noteq> None \<longrightarrow>
          sync_logs (sync_world_of e pages w) = sync_logs w)"
proof -
  obtain l err w' where run: "SyncMoviesFromTMDB e pages w = ((l, err), w')"
    by (metis surj_pair)
  from SyncMoviesFromTMDB_result [OF run] obtain wf af uf d lg where
    ag: "counts_agree (w, 0, 0) (wf, af, uf)" and
    lg: "sl_status lg = ''failed''" and
    alt: "(err = None
          \<and> (\<forall>j. 1 \<le> j \<and> j \<le> effective_pages pages \<longrightarrow> fetch_ok e j)
          \<and> fetched (effects wf) = fetched (effects w) @ [1..effective_pages pages]
          \<and> repo_CreateSyncLog e
               (lg\<lparr>sl_status := ''success'', sl_movies_added := af,
                    sl_movies_updated := uf\<rparr>) wf = ((d, l), w'))
        \<or> (\<exists>k msg. err = Some msg \<and> 1 \<le> k \<and> k \<le> effective_pages pages
              \<and> fetch_page e k = Inl msg
              \<and> (\<forall>j. 1 \<le> j \<and> j < k \<longrightarrow> fetch_ok e j)
              \<and> fetched (effects wf) = fetched (effects w) @ [1..k]
              \<and> repo_CreateSyncLog e (lg\<lparr>sl_error_message := fetch_error_message k msg\<rparr>) wf
                  = ((d, l), w'))"
    by blast
  have nok: "\<not> fetch_ok e k" using fail by (simp add: fetch_ok_def)
  from alt obtain k' msg' where f: "err = Some msg'" "1 \<le> k'" "k' \<le> effective_pages pages"
      "fetch_page e k' = Inl msg'" "\<forall>j. 1 \<le> j \<and> j < k' \<longrightarrow> fetch_ok e j"
      "fetched (effects wf) = fetched (effects w) @ [1..k']"
      "repo_CreateSyncLog e (lg\<lparr>sl_error_message := fetch_error_message k' msg'\<rparr>) wf
                  = ((d, l), w')"
    using nok k by blast
  have nok': "\<not> fetch_ok e k'" using f(4) by (simp add: fetch_ok_def)
  have "\<not> k' < k" using before f(2) nok' by blast
  moreover have "\<not> k < k'" using f(5) k(1) nok by blast
  ultimately have kk: "k' = k" by simp
  with fail f(4) have mm: "msg' = msg" by simp
  note lo = log_insert_outcome [OF f(7)]
  have c: "calls w' - 1 = calls wf" "0 < calls w'" using lo by simp_all
  have sl: "sync_logs wf = sync_logs w" using ag by (simp add: counts_agree_def)
  show ?thesis
    using lo f(1,6) lg kk mm c sl
    by (simp add: run fetch_error_message_def)
qed

theorem SyncMoviesFromTMDB_fetch_failure_witness:
  "sync_error_of one_page_env 3 empty_world = Some ''TMDB API returned status 500''
   \<and> fetched (effects (sync_world_of one_page_env 3 empty_world)) = [1, 2]
   \<and> sl_status (sync_log_of one_page_env 3 empty_world) = ''failed''
   \<and> sl_error_message (sync_log_of one_page_env 3 empty_world)
        = ''failed to fetch page 2: TMDB API returned status 500''
   \<and> sync_logs (sync_world_of one_page_env 3 empty_world)
        = [sync_log_of one_page_env 3 empty_world]"
proof -
  have a: "fetch_page one_page_env 2 = Inl ''TMDB API returned status 500''"
    by (simp add: one_page_env_def)
  have b: "(1::int) \<le> 2" "(2::int) \<le> effective_pages 3" by simp_all
  have c: "\<forall>j. 1 \<le> j \<and> j < 2 \<longrightarrow> fetch_ok one_page_env j"
  proof (intro allI impI)
    fix j :: int assume "1 \<le> j \<and> j < 2"
    then have "j = 1" by simp
    then show "fetch_ok one_page_env j" by (simp add: fetch_ok_def one_page_env_def)
  qed
  have i: "Itoa 2 = ''2''" "[1..2] = [1, 2::int]" by code_simp+
  have f: "fault one_page_env n = None" for n by (simp add: one_page_env_def)
  show ?thesis
    using SyncMoviesFromTMDB_fetch_failure [OF a b c, of empty_world]
    by (simp add: i f)
qed

text \<open>
  C4. When every page up to the (clamped) page count is fetched, the run returns no
  error and a log with status \<open>success\<close>. Its added count is the number of items the
  run inserted (the successful inserts, at most one per item, which is also the growth
  of the movie table) and its updated count is the number of items it updated (the
  successful saves, at most one per item). The log is handed to the store in the last
  call of the run: when that insert succeeds, the log table gains exactly this one log
  (and when it does not, the table stays as it was).
\<close>

theorem SyncMoviesFromTMDB_success:
  assumes "\<forall>j. 1 \<le> j \<and> j \<le> effective_pages pages \<longrightarrow> fetch_ok e j"
  shows "sync_error_of e pages w = None
     \<and> sl_status (sync_log_of e pages w) = ''success''
     \<and> fetched (effects (sync_world_of e pages w))
         = fetched (effects w) @ [1..effective_pages pages]
     \<and> sl_movies_added (sync_log_of e pages w)
         = int (inserted (effects (sync_world_of e pages w))) - int (inserted (effects w))
     \<and> sl_movies_updated (sync_log_of e pages w)
         = int (saved (effects (sync_world_of e pages w))) - int (saved (effects w))
     \<and> sl_movies_added (sync_log_of e pages w)
         = int (length (movies (sync_world_of e pages w))) - int (length (movies w))
     \<and> 0 < calls (sync_world_of e pages w)
     \<and> (fault e (calls (sync_world_of e pages w) - 1) = None \<longrightarrow>
          sync_logs (sync_world_of e pages w) = sync_logs w @ [sync_log_of e pages w])
     \<and> (fault e (calls (sync_world_of e pages w) - 1) \<noteq> None \<longrightarrow>
          sync_logs (sync_world_of e pages w) = sync_logs w)"
proof -
  obtain l err w' where run: "SyncMoviesFromTMDB e pages w = ((l, err), w')"
    by (metis surj_pair)
  from sync_success_run [OF assms run] show ?thesis
    by (simp add: run)
qed

theorem SyncMoviesFromTMDB_success_witness:
  "sync_error_of one_page_env 1 empty_world = None
   \<and> sl_status (sync_log_of one_page_env 1 empty_world) = ''success''
   \<and> sl_movies_added (sync_log_of one_page_env 1 empty_world) = 2
   \<and> sl_movies_updated (sync_log_of one_page_env 1 empty_world) = 0
   \<and> sync_logs (sync_world_of one_page_env 1 empty_world)
        = [sync_log_of one_page_env 1 empty_world]"
proof -
  have c: "\<forall>j. 1 \<le> j \<and> j \<le> effective_pages 1 \<longrightarrow> fetch_ok one_page_env j"
  proof (intro allI impI)
    fix j :: int assume "1 \<le> j \<and> j \<le> effective_pages 1"
    then have "j = 1" by simp
    then show "fetch_ok one_page_env j" by (simp add: fetch_ok_def one_page_env_def)
  qed
  have f: "fault one_page_env n = None" for n by (simp add: one_page_env_def)
  have n: "length (movies (sync_world_of one_page_env 1 empty_world)) = 2"
    "saved (effects (sync_world_of one_page_env 1 empty_world)) = 0"
    by code_simp+
  show ?thesis
    using SyncMoviesFromTMDB_success [OF c, of empty_world]
    by (simp add: f n)
qed

lemma db_ok_empty [simp]: "db_ok empty_world"
  by (simp add: db_ok_def empty_world_def)

subsection \<open>The row written for one item\<close>

lemma find_append_last: "find P xs = None \<Longrightarrow> P x \<Longrightarrow> find P (xs @ [x]) = Some x"
  by (induction xs) (auto split: if_splits)

lemma langRepo_FindOrCreate_found:
  "langRepo_FindOrCreate e c n w = (Inr l, w1) \<Longrightarrow>
     find (\<lambda>l. lang_code l = c) (languages w1) = Some l"
  by (auto simp: langRepo_FindOrCreate_def Let_def tick_def find_append_last
      split: option.splits)

lemma genreRepo_FindOrCreate_languages:
  "genreRepo_FindOrCreate e c n w = (r, w') \<Longrightarrow> languages w' = languages w"
  by (auto simp: genreRepo_FindOrCreate_def tick_def Let_def split: option.splits)

lemma resolve_genres_languages:
  "resolve_genres e ids acc w = (gs, w') \<Longrightarrow> languages w' = languages w"
proof (induction ids arbitrary: acc w)
  case Nil
  then show ?case by simp
next
  case (Cons a ids)
  obtain r w1 where g: "genreRepo_FindOrCreate e a (getGenreName a) w = (r, w1)"
    by (metis surj_pair)
  with Cons.prems Cons.IH [of _ w1] genreRepo_FindOrCreate_languages [OF g]
  show ?case by (cases r) auto
qed

lemma repo_Create_languages:
  "repo_Create e m w = (r, w') \<Longrightarrow> languages w' = languages w"
  by (auto simp: repo_Create_def tick_def Let_def split: option.splits if_splits)

lemma repo_Update_languages:
  "repo_Update e m w = (r, w') \<Longrightarrow> languages w' = languages w"
  by (auto simp: repo_Update_def tick_def Let_def dest: repo_Create_languages
      split: option.splits if_splits)

lemma replace_row_filter:
  assumes "distinct (map f xs)" "distinct (map g xs)" "x \<in> set xs" "g x = t" "g y = t"
  shows "filter (\<lambda>r. g r = t) (map (\<lambda>r. if f r = f x then y else r) xs) = [y]
         \<and> filter (\<lambda>r. g r \<noteq> t) (map (\<lambda>r. if f r = f x then y else r) xs)
             = filter (\<lambda>r. g r \<noteq> t) xs"
  using assms
proof (induction xs)
  case Nil
  then show ?case by simp
next
  case (Cons z zs)
  show ?case
  proof (cases "z = x")
    case True
    have i: "f x \<notin> f ` set zs" "g x \<notin> g ` set zs"
      using Cons.prems True by simp_all
    have a: "f r \<noteq> f x" "g r \<noteq> t" if "r \<in> set zs" for r
      using i that Cons.prems(4) by (metis imageI)+
    then have "map (\<lambda>r. if f r = f x then y else r) zs = zs"
      "filter (\<lambda>r. g r = t) zs = []"
      by (auto simp: map_idI filter_empty_conv)
    with True Cons.prems show ?thesis by simp
  next
    case False
    with Cons.prems have x: "x \<in> set zs" by simp
    have i: "f z \<notin> f ` set zs" "g z \<notin> g ` set zs"
      using Cons.prems by simp_all
    have "f z \<noteq> f x" "g z \<noteq> t"
      using i x Cons.prems(4) by (metis imageI)+
    with Cons.IH x Cons.prems show ?thesis by simp
  qed
qed

lemma sync_item_updates_existing:
  assumes run: "sync_item e t (w, a, u) = (w', a', u')"
    and ok: "db_ok w"
    and ex: "find (\<lambda>r. m_tmdb_id r = t_id t) (movies w) = Some ex"
    and nf: "fault e (calls w) = None"
            "fault e (calls w + 1 + length (t_genre_ids t)) = None"
            "fault e (calls w + 2 + length (t_genre_ids t)) = None"
  shows "a' = a \<and> u' = u + 1 \<and> length (movies w') = length (movies w)
     \<and> stored_as w' t (m_id ex) (m_created_at ex)
     \<and> filter (\<lambda>r. m_tmdb_id r \<noteq> t_id t) (movies w')
         = filter (\<lambda>r. m_tmdb_id r \<noteq> t_id t) (movies w)
     \<and> (\<forall>r\<in>set (movies w'). m_tmdb_id r = t_id t \<longrightarrow>
           m_updated_at r = now e (calls w + 2 + length (t_genre_ids t)))
     \<and> db_ok w'"
proof (cases rule: sync_item_cases [of e t w a u])
  case (lang_err err w1)
  from langRepo_FindOrCreate_frame [OF lang_err(1)] nf(1) show ?thesis by simp
next
  case (find_err l w1 gs w2 err w3)
  from langRepo_FindOrCreate_frame [OF find_err(1)] resolve_genres_frame [OF find_err(2)]
  have "calls w2 = calls w + 1 + length (t_genre_ids t)" by simp
  with repo_FindByTMDBID_frame [OF find_err(3)] nf(2) show ?thesis by simp
next
  case (create_err l w1 gs w2 w3 err w4)
  from langRepo_FindOrCreate_frame [OF create_err(1)] resolve_genres_frame [OF create_err(2)]
  have "calls w2 = calls w + 1 + length (t_genre_ids t)" "movies w2 = movies w"
    by (simp_all add: same_movies_def)
  with repo_FindByTMDBID_frame [OF create_err(3)] nf(2) ex show ?thesis by simp
next
  case (created l w1 gs w2 w3 m w4)
  from langRepo_FindOrCreate_frame [OF created(1)] resolve_genres_frame [OF created(2)]
  have "calls w2 = calls w + 1 + length (t_genre_ids t)" "movies w2 = movies w"
    by (simp_all add: same_movies_def)
  with repo_FindByTMDBID_frame [OF created(3)] nf(2) ex show ?thesis by simp
next
  case (update_err l w1 gs w2 ex' w3 err w4)
  from sync_item_counted [OF run ok nf] update_err(5) run show ?thesis by simp
next
  case (updated l w1 gs w2 ex' w3 m w4)
  let ?mv = "(movie_of_tmdb t l)\<lparr>m_genres := gs, m_id := m_id ex',
                        m_created_at := m_created_at ex'\<rparr>"
  from langRepo_FindOrCreate_frame [OF updated(1)] resolve_genres_frame [OF updated(2)]
  have c2: "calls w2 = calls w + 1 + length (t_genre_ids t)" and mv: "movies w2 = movies w"
    by (simp_all add: same_movies_def)
  from repo_FindByTMDBID_frame [OF updated(3)] nf(2) c2 ex mv
  have w3: "w3 = tick w2" and same: "ex' = ex" by simp_all
  have exs: "ex \<in> set (movies w)" "m_tmdb_id ex = t_id t"
    using find_SomeD [OF ex] by simp_all
  have c3: "calls w3 = calls w + 2 + length (t_genre_ids t)" using w3 c2 by simp
  have p1: "ex \<in> set (movies w3)" using exs(1) w3 mv by simp
  have p2: "m_tmdb_id ex = m_tmdb_id ?mv" using exs(2) by (simp add: movie_of_tmdb_def)
  have p3: "m_id ex = m_id ?mv" using same by simp
  note ru = repo_Update_ok [OF updated(4) p1 p2 p3]
  have up1: "m = ?mv\<lparr>m_updated_at := now e (calls w3)\<rparr>"
    using ru by blast
  have "movies w4 = map (\<lambda>r. if m_id r = m_id ?mv then m\<lparr>m_genres := []\<rparr> else r) (movies w3)"
    using ru by blast
  then have up2:
    "movies w4 = map (\<lambda>r. if m_id r = m_id ex then m\<lparr>m_genres := []\<rparr> else r) (movies w)"
    using p3 w3 mv by simp
  have up3: "movie_seq w4 = movie_seq w3"
    using ru by blast
  note up = up1 up2 up3
  let ?row = "m\<lparr>m_genres := []\<rparr>"
  have row: "m_tmdb_id ?row = t_id t" "m_id ?row = m_id ex" "m_created_at ?row = m_created_at ex"
    "carries ?row t" "m_language_id ?row = Some (lang_id l)"
    "m_updated_at ?row = now e (calls w + 2 + length (t_genre_ids t))"
    using up(1) same c3 by (simp_all add: movie_of_tmdb_def carries_def)
  have dist: "distinct (map m_id (movies w))" "distinct (map m_tmdb_id (movies w))"
    using ok by (simp_all add: db_ok_def)
  note rf = replace_row_filter [OF dist exs(1) exs(2) row(1)]
  have lang: "find (\<lambda>l. lang_code l = t_original_language t) (languages w4) = Some l"
    using langRepo_FindOrCreate_found [OF updated(1)] resolve_genres_languages [OF updated(2)]
      repo_Update_languages [OF updated(4)] w3
    by simp
  have st: "stored_as w4 t (m_id ex) (m_created_at ex)"
    using rf row lang by (simp add: stored_as_def up(2))
  have upd: "\<forall>r\<in>set (movies w4). m_tmdb_id r = t_id t \<longrightarrow>
           m_updated_at r = now e (calls w + 2 + length (t_genre_ids t))"
  proof (intro ballI impI)
    fix r assume "r \<in> set (movies w4)" "m_tmdb_id r = t_id t"
    then have "r \<in> set (filter (\<lambda>r. m_tmdb_id r = t_id t) (movies w4))" by simp
    with rf have "r = ?row" by (simp add: up(2))
    with row(6) show "m_updated_at r = now e (calls w + 2 + length (t_genre_ids t))" by simp
  qed
  have ids: "map m_id (movies w4) = map m_id (movies w)"
    using row(2) by (simp add: up(2) o_def cong: map_cong)
  have tm: "map m_tmdb_id (movies w4) = map m_tmdb_id (movies w)"
  proof -
    have "\<And>r. r \<in> set (movies w) \<Longrightarrow> m_id r = m_id ex \<Longrightarrow> m_tmdb_id r = t_id t"
      using dist(1) exs by (metis distinct_map inj_onD)
    then show ?thesis using row(1) by (simp add: up(2) o_def cong: map_cong)
  qed
  have seq: "movie_seq w4 = movie_seq w"
    using up(3) w3 langRepo_FindOrCreate_frame [OF updated(1)] resolve_genres_frame [OF updated(2)]
    by (simp add: same_movies_def)
  have ok4: "db_ok w4"
  proof -
    have "\<forall>i\<in>set (map m_id (movies w)). 0 < i \<and> i \<le> movie_seq w"
      using ok by (auto simp: db_ok_def list_all_iff)
    then have "\<forall>i\<in>set (map m_id (movies w4)). 0 < i \<and> i \<le> movie_seq w4"
      by (simp only: ids seq)
    then have "list_all (\<lambda>r. 0 < m_id r \<and> m_id r \<le> movie_seq w4) (movies w4)"
      by (auto simp: list_all_iff)
    then show ?thesis
      using dist by (simp add: db_ok_def ids tm)
  qed
  from updated(5) run rf st upd ok4 show ?thesis
    by (simp add: up(2))
qed

lemma sync_item_creates_absent:
  assumes run: "sync_item e t (w, a, u) = (w', a', u')"
    and ok: "db_ok w"
    and absent: "find (\<lambda>r. m_tmdb_id r = t_id t) (movies w) = None"
    and nf: "fault e (calls w) = None"
            "fault e (calls w + 1 + length (t_genre_ids t)) = None"
            "fault e (calls w + 2 + length (t_genre_ids t)) = None"
  shows "a' = a + 1 \<and> u' = u \<and> length (movies w') = length (movies w) + 1
     \<and> stored_as w' t (movie_seq w + 1) (now e (calls w + 2 + length (t_genre_ids t)))
     \<and> filter (\<lambda>r. m_tmdb_id r \<noteq> t_id t) (movies w')
         = filter (\<lambda>r. m_tmdb_id r \<noteq> t_id t) (movies w)
     \<and> calls w' = calls w + 3 + length (t_genre_ids t)
     \<and> db_ok w'"
proof (cases rule: sync_item_cases [of e t w a u])
  case (lang_err err w1)
  from langRepo_FindOrCreate_frame [OF lang_err(1)] nf(1) show ?thesis by simp
next
  case (find_err l w1 gs w2 err w3)
  from langRepo_FindOrCreate_frame [OF find_err(1)] resolve_genres_frame [OF find_err(2)]
  have "calls w2 = calls w + 1 + length (t_genre_ids t)" by simp
  with repo_FindByTMDBID_frame [OF find_err(3)] nf(2) show ?thesis by simp
next
  case (create_err l w1 gs w2 w3 err w4)
  from sync_item_counted [OF run ok nf] create_err(5) run show ?thesis by simp
next
  case (update_err l w1 gs w2 ex w3 err w4)
  from langRepo_FindOrCreate_frame [OF update_err(1)] resolve_genres_frame [OF update_err(2)]
  have "calls w2 = calls w + 1 + length (t_genre_ids t)" "movies w2 = movies w"
    by (simp_all add: same_movies_def)
  with repo_FindByTMDBID_frame [OF update_err(3)] nf(2) absent show ?thesis by simp
next
  case (updated l w1 gs w2 ex w3 m w4)
  from langRepo_FindOrCreate_frame [OF updated(1)] resolve_genres_frame [OF updated(2)]
  have "calls w2 = calls w + 1 + length (t_genre_ids t)" "movies w2 = movies w"
    by (simp_all add: same_movies_def)
  with repo_FindByTMDBID_frame [OF updated(3)] nf(2) absent show ?thesis by simp
next
  case (created l w1 gs w2 w3 m w4)
  let ?mv = "(movie_of_tmdb t l)\<lparr>m_genres := gs\<rparr>"
  from langRepo_FindOrCreate_frame [OF created(1)] resolve_genres_frame [OF created(2)]
  have c2: "calls w2 = calls w + 1 + length (t_genre_ids t)" and mv: "movies w2 = movies w"
    and sq: "movie_seq w2 = movie_seq w"
    by (simp_all add: same_movies_def)
  from repo_FindByTMDBID_frame [OF created(3)]
  have w3: "w3 = tick w2" by simp
  have c3: "calls w3 = calls w + 2 + length (t_genre_ids t)" using w3 c2 by simp
  note rc = repo_Create_ok [OF created(4)]
  have m: "m = ?mv\<lparr>m_id := movie_seq w3 + 1,
               m_created_at := (if m_created_at ?mv = 0 then now e (calls w3) else m_created_at ?mv),
               m_updated_at := (if m_updated_at ?mv = 0 then now e (calls w3) else m_updated_at ?mv)\<rparr>"
    using rc by blast
  let ?row = "m\<lparr>m_genres := []\<rparr>"
  have mw: "movies w4 = movies w3 @ [?row]" using rc by blast
  then have mw4: "movies w4 = movies w @ [?row]" using w3 mv by simp
  have sq4: "movie_seq w4 = movie_seq w + 1" using rc w3 sq by simp
  have c4: "calls w4 = calls w + 3 + length (t_genre_ids t)" using rc c3 by simp
  have row: "m_tmdb_id ?row = t_id t" "m_id ?row = movie_seq w + 1"
    "m_created_at ?row = now e (calls w + 2 + length (t_genre_ids t))"
    "carries ?row t" "m_language_id ?row = Some (lang_id l)"
    using m c3 w3 sq by (simp_all add: movie_of_tmdb_def carries_def)
  have none: "\<forall>r\<in>set (movies w). m_tmdb_id r \<noteq> t_id t"
    using absent by (auto simp: find_None_iff)
  then have fl: "filter (\<lambda>r. m_tmdb_id r = t_id t) (movies w) = []"
    "filter (\<lambda>r. m_tmdb_id r \<noteq> t_id t) (movies w) = movies w"
    by (auto simp: filter_empty_conv filter_id_conv)
  have lang: "find (\<lambda>l. lang_code l = t_original_language t) (languages w4) = Some l"
    using langRepo_FindOrCreate_found [OF created(1)] resolve_genres_languages [OF created(2)]
      repo_Create_languages [OF created(4)] w3
    by simp
  have st: "stored_as w4 t (movie_seq w + 1) (now e (calls w + 2 + length (t_genre_ids t)))"
    using row lang fl by (simp add: stored_as_def mw4)
  have ok4: "db_ok w4"
  proof -
    have b: "\<forall>r\<in>set (movies w). 0 < m_id r \<and> m_id r \<le> movie_seq w"
      "distinct (map m_id (movies w))" "distinct (map m_tmdb_id (movies w))"
      using ok by (auto simp: db_ok_def list_all_iff)
    have "m_id ?row \<notin> m_id ` set (movies w)"
      using b(1) row(2) by force
    moreover have "m_tmdb_id ?row \<notin> m_tmdb_id ` set (movies w)"
      using none row(1) by force
    moreover have "\<forall>r\<in>set (movies w). 0 < m_id r \<and> m_id r \<le> movie_seq w + 1"
      using b(1) by force
    ultimately show ?thesis
      using b(2,3) row(2) by (simp add: db_ok_def mw4 sq4 list_all_iff)
  qed
  from created(5) run st ok4 c4 fl row(1) show ?thesis
    by (simp add: mw4)
qed

lemma find_of_filter: "filter P xs = x # ys \<Longrightarrow> find P xs = Some x"
  by (induction xs) (auto split: if_splits)

subsection \<open>Genre links\<close>

lemma find_append_stable: "find P xs = Some x \<Longrightarrow> find P (xs @ ys) = Some x"
  by (induction xs) (auto split: if_splits)

lemma those_map_Some: "those (map Some xs) = Some xs"
  by (induction xs) auto

lemma set_link_genres:
  "set (link_genres mid gs links) = set links \<union> set (map (\<lambda>g. (mid, genre_id g)) gs)"
  unfolding link_genres_def
  by (induction gs arbitrary: links) auto

lemma genreRepo_FindOrCreate_result:
  assumes "genreRepo_FindOrCreate e gid name w = (r, w')"
  shows "(\<exists>ys. genres w' = genres w @ ys) \<and> calls w' = calls w + 1
     \<and> (case fault e (calls w) of
          Some err \<Rightarrow> r = Inl err
        | None \<Rightarrow> (\<exists>g. r = Inr g \<and> find (\<lambda>g. genre_tmdb_id g = gid) (genres w') = Some g))"
  using assms
  by (auto simp: genreRepo_FindOrCreate_def Let_def tick_def find_append_last
      split: option.splits)

lemma resolve_genres_result:
  "resolve_genres e ids acc w = (gs, w') \<Longrightarrow>
     (\<exists>ys. genres w' = genres w @ ys)
     \<and> (\<exists>new. gs = acc @ new
          \<and> map (\<lambda>gid. find (\<lambda>g. genre_tmdb_id g = gid) (genres w'))
                (kept_genre_ids e (calls w) ids) = map Some new)"
proof (induction ids arbitrary: acc w)
  case Nil
  then show ?case by simp
next
  case (Cons gid ids)
  obtain r w1 where g: "genreRepo_FindOrCreate e gid (getGenreName gid) w = (r, w1)"
    by (metis surj_pair)
  note f = genreRepo_FindOrCreate_result [OF g]
  from f obtain ys1 where ys1: "genres w1 = genres w @ ys1" by blast
  have c1: "calls w1 = Suc (calls w)" using f by simp
  show ?case
  proof (cases "fault e (calls w)")
    case (Some err)
    with f have "r = Inl err" by simp
    with Cons.prems g have rec: "resolve_genres e ids acc w1 = (gs, w')" by simp
    from Cons.IH [OF rec] obtain ys new where
      "genres w' = genres w1 @ ys" "gs = acc @ new"
      "map (\<lambda>gid. find (\<lambda>g. genre_tmdb_id g = gid) (genres w'))
                (kept_genre_ids e (calls w1) ids) = map Some new"
      by blast
    with Some ys1 c1 show ?thesis by simp
  next
    case None
    with f obtain x where x: "r = Inr x"
      "find (\<lambda>g. genre_tmdb_id g = gid) (genres w1) = Some x" by auto
    with Cons.prems g have rec: "resolve_genres e ids (acc @ [x]) w1 = (gs, w')" by simp
    from Cons.IH [OF rec] obtain ys new where r:
      "genres w' = genres w1 @ ys" "gs = (acc @ [x]) @ new"
      "map (\<lambda>gid. find (\<lambda>g. genre_tmdb_id g = gid) (genres w'))
                (kept_genre_ids e (calls w1) ids) = map Some new"
      by blast
    have "find (\<lambda>g. genre_tmdb_id g = gid) (genres w') = Some x"
      using find_append_stable [OF x(2)] r(1) by simp
    with None r ys1 c1 show ?thesis by simp
  qed
qed

lemma resolve_genres_links:
  assumes "resolve_genres e ids [] w = (gs, w')"
  shows "those (map (\<lambda>gid. find (\<lambda>g. genre_tmdb_id g = gid) (genres w'))
                (kept_genre_ids e (calls w) ids)) = Some gs"
  using resolve_genres_result [OF assms] by (auto simp: those_map_Some)

lemma repo_Create_genres:
  "repo_Create e m w = (r, w') \<Longrightarrow> genres w' = genres w"
  by (auto simp: repo_Create_def tick_def Let_def split: option.splits if_splits)

lemma repo_Update_genres:
  "repo_Update e m w = (r, w') \<Longrightarrow> genres w' = genres w"
  by (auto simp: repo_Update_def tick_def Let_def dest: repo_Create_genres
      split: option.splits if_splits)



lemma kept_genre_ids_all: "\<forall>n. fault e n = None \<Longrightarrow> kept_genre_ids e n ids = ids"
  by (induction ids arbitrary: n) auto

lemma sync_item_links:
  assumes run: "sync_item e t (w, a, u) = (w', a', u')"
    and ok: "db_ok w"
    and nf: "fault e (calls w) = None"
            "fault e (calls w + 1 + length (t_genre_ids t)) = None"
            "fault e (calls w + 2 + length (t_genre_ids t)) = None"
  shows "genre_links_added w w'
           (case find (\<lambda>r. m_tmdb_id r = t_id t) (movies w) of
              None \<Rightarrow> movie_seq w + 1 | Some ex \<Rightarrow> m_id ex)
           (kept_genre_ids e (calls w + 1) (t_genre_ids t))"
proof (cases rule: sync_item_cases [of e t w a u])
  case (lang_err err w1)
  from sync_item_counted [OF run ok nf] lang_err(2) run show ?thesis by simp
next
  case (find_err l w1 gs w2 err w3)
  from sync_item_counted [OF run ok nf] find_err(4) run show ?thesis by simp
next
  case (create_err l w1 gs w2 w3 err w4)
  from sync_item_counted [OF run ok nf] create_err(5) run show ?thesis by simp
next
  case (update_err l w1 gs w2 ex w3 err w4)
  from sync_item_counted [OF run ok nf] update_err(5) run show ?thesis by simp
next
  case (created l w1 gs w2 w3 m w4)
  let ?mv = "(movie_of_tmdb t l)\<lparr>m_genres := gs\<rparr>"
  note fl = langRepo_FindOrCreate_frame [OF created(1)]
  note fg = resolve_genres_frame [OF created(2)]
  have c1: "calls w1 = calls w + 1" using fl by simp
  have c2: "calls w2 = calls w + 1 + length (t_genre_ids t)" using fl fg by simp
  have fr: "movies w2 = movies w" "movie_seq w2 = movie_seq w" "movie_genres w2 = movie_genres w"
    using fl fg by (simp_all add: same_movies_def)
  from repo_FindByTMDBID_frame [OF created(3)] nf(2) c2 fr(1)
  have w3: "w3 = tick w2" and fnd: "find (\<lambda>r. m_tmdb_id r = t_id t) (movies w) = None"
    by simp_all
  note rc = repo_Create_ok [OF created(4)]
  have lk: "movie_genres w4 = link_genres (movie_seq w + 1) gs (movie_genres w)"
    using rc w3 fr by simp
  have gn: "genres w4 = genres w2"
    using repo_Create_genres [OF created(4)] w3 by simp
  have th: "those (map (\<lambda>gid. find (\<lambda>g. genre_tmdb_id g = gid) (genres w4))
                (kept_genre_ids e (calls w + 1) (t_genre_ids t))) = Some gs"
    using resolve_genres_links [OF created(2)] c1 gn by simp
  have "w' = w4" using created(5) run by simp
  with th lk show ?thesis
    by (simp add: genre_links_added_def fnd set_link_genres)
next
  case (updated l w1 gs w2 ex w3 m w4)
  let ?mv = "(movie_of_tmdb t l)\<lparr>m_genres := gs, m_id := m_id ex,
                        m_created_at := m_created_at ex\<rparr>"
  note fl = langRepo_FindOrCreate_frame [OF updated(1)]
  note fg = resolve_genres_frame [OF updated(2)]
  have c1: "calls w1 = calls w + 1" using fl by simp
  have c2: "calls w2 = calls w + 1 + length (t_genre_ids t)" using fl fg by simp
  have fr: "movies w2 = movies w" "movie_seq w2 = movie_seq w" "movie_genres w2 = movie_genres w"
    using fl fg by (simp_all add: same_movies_def)
  from repo_FindByTMDBID_frame [OF updated(3)] nf(2) c2 fr(1)
  have w3: "w3 = tick w2" and fnd: "find (\<lambda>r. m_tmdb_id r = t_id t) (movies w) = Some ex"
    by simp_all
  have exs: "ex \<in> set (movies w)" "m_tmdb_id ex = t_id t"
    using find_SomeD [OF fnd] by simp_all
  have p1: "ex \<in> set (movies w3)" using exs(1) w3 fr(1) by simp
  have p2: "m_tmdb_id ex = m_tmdb_id ?mv" using exs(2) by (simp add: movie_of_tmdb_def)
  have p3: "m_id ex = m_id ?mv" by simp
  note ru = repo_Update_ok [OF updated(4) p1 p2 p3]
  have "movie_genres w4 = link_genres (m_id ?mv) (m_genres ?mv) (movie_genres w3)"
    using ru by blast
  then have lk: "movie_genres w4 = link_genres (m_id ex) gs (movie_genres w)"
    using w3 fr by simp
  have gn: "genres w4 = genres w2"
    using repo_Update_genres [OF updated(4)] w3 by simp
  have th: "those (map (\<lambda>gid. find (\<lambda>g. genre_tmdb_id g = gid) (genres w4))
                (kept_genre_ids e (calls w + 1) (t_genre_ids t))) = Some gs"
    using resolve_genres_links [OF updated(2)] c1 gn by simp
  have "w' = w4" using updated(5) run by simp
  with th lk show ?thesis
    by (simp add: genre_links_added_def fnd set_link_genres)
qed

subsection \<open>Items that fail\<close>

text \<open>
  C3, as the code has it. The store calls of one item are numbered from \<open>calls w\<close>: the
  language lookup, one call per genre id, the lookup by external id, and the insert or
  update. When the language lookup, the lookup by external id or the write fails, the
  item is skipped: neither counter moves and the movie table and the join table stay as
  they were. A failing genre lookup does not skip the item, only that genre: in a
  well-formed store, an item whose three other calls succeed is written and counted
  once. When its external id had no row it is inserted and counted as added, when it
  had one it is updated and counted as updated; either way its external id then has
  exactly one row, carrying the payload, and the join table holds what it held before
  and a link from that row to each genre of the payload whose lookup did not fail, and
  to no other. In every case the loop goes on to the remaining items, and a run whose
  page fetches all succeed returns no error and fetches every page, whatever store calls
  fail on the way.
\<close>

theorem per_item_failures:
  "(case sync_item e t (w, a, u) of (w', a', u') \<Rightarrow>
      (fault e (calls w) \<noteq> None
         \<or> fault e (calls w + 1 + length (t_genre_ids t)) \<noteq> None
         \<or> fault e (calls w + 2 + length (t_genre_ids t)) \<noteq> None
       \<longrightarrow> a' = a \<and> u' = u \<and> movies w' = movies w \<and> movie_genres w' = movie_genres w)
    \<and> (db_ok w \<and> fault e (calls w) = None
         \<and> fault e (calls w + 1 + length (t_genre_ids t)) = None
         \<and> fault e (calls w + 2 + length (t_genre_ids t)) = None
       \<longrightarrow> (case find (\<lambda>r. m_tmdb_id r = t_id t) (movies w) of
              None \<Rightarrow>
                a' = a + 1 \<and> u' = u
                \<and> stored_as w' t (movie_seq w + 1)
                     (now e (calls w + 2 + length (t_genre_ids t)))
                \<and> genre_links_added w w' (movie_seq w + 1)
                     (kept_genre_ids e (calls w + 1) (t_genre_ids t))
            | Some ex \<Rightarrow>
                a' = a \<and> u' = u + 1
                \<and> stored_as w' t (m_id ex) (m_created_at ex)
                \<and> genre_links_added w w' (m_id ex)
                     (kept_genre_ids e (calls w + 1) (t_genre_ids t)))))
   \<and> sync_items e (t # ts) (w, a, u) = sync_items e ts (sync_item e t (w, a, u))
   \<and> ((\<forall>j. 1 \<le> j \<and> j \<le> effective_pages pages \<longrightarrow> fetch_ok e j) \<longrightarrow>
         sync_error_of e pages w = None
         \<and> sl_status (sync_log_of e pages w) = ''success''
         \<and> fetched (effects (sync_world_of e pages w))
             = fetched (effects w) @ [1..effective_pages pages])"
proof -
  obtain w' a' u' where one: "sync_item e t (w, a, u) = (w', a', u')"
    by (metis surj_pair)
  obtain l err wr where run: "SyncMoviesFromTMDB e pages w = ((l, err), wr)"
    by (metis surj_pair)
  let ?kept = "kept_genre_ids e (calls w + 1) (t_genre_ids t)"
  have skip: "fault e (calls w) \<noteq> None
         \<or> fault e (calls w + 1 + length (t_genre_ids t)) \<noteq> None
         \<or> fault e (calls w + 2 + length (t_genre_ids t)) \<noteq> None
       \<longrightarrow> a' = a \<and> u' = u \<and> movies w' = movies w \<and> movie_genres w' = movie_genres w"
    using sync_item_skipped [OF one] by blast
  have cnt: "case find (\<lambda>r. m_tmdb_id r = t_id t) (movies w) of
              None \<Rightarrow>
                a' = a + 1 \<and> u' = u
                \<and> stored_as w' t (movie_seq w + 1)
                     (now e (calls w + 2 + length (t_genre_ids t)))
                \<and> genre_links_added w w' (movie_seq w + 1) ?kept
            | Some ex \<Rightarrow>
                a' = a \<and> u' = u + 1
                \<and> stored_as w' t (m_id ex) (m_created_at ex)
                \<and> genre_links_added w w' (m_id ex) ?kept"
    if ok: "db_ok w" and nf: "fault e (calls w) = None"
      "fault e (calls w + 1 + length (t_genre_ids t)) = None"
      "fault e (calls w + 2 + length (t_genre_ids t)) = None"
  proof (cases "find (\<lambda>r. m_tmdb_id r = t_id t) (movies w)")
    case None
    from sync_item_creates_absent [OF one ok None nf] sync_item_links [OF one ok nf] None
    show ?thesis by simp
  next
    case (Some ex)
    from sync_item_updates_existing [OF one ok Some nf] sync_item_links [OF one ok nf] Some
    show ?thesis by simp
  qed
  have whole: "(\<forall>j. 1 \<le> j \<and> j \<le> effective_pages pages \<longrightarrow> fetch_ok e j) \<longrightarrow>
         sync_error_of e pages w = None
         \<and> sl_status (sync_log_of e pages w) = ''success''
         \<and> fetched (effects (sync_world_of e pages w))
             = fetched (effects w) @ [1..effective_pages pages]"
    using sync_success_run [OF _ run] by (simp add: run)
  from skip cnt whole show ?thesis
    by (simp add: one)
qed

theorem per_item_failures_witness:
  "(case sync_item (fault_at 2) movie_a (empty_world, 0, 0) of
      (w', a', u') \<Rightarrow> a' = 0 \<and> u' = 0 \<and> movies w' = [] \<and> movie_genres w' = [])
   \<and> (case sync_item (fault_at 1) movie_b (empty_world, 0, 0) of
      (w', a', u') \<Rightarrow> a' = 1 \<and> u' = 0 \<and> stored_as w' movie_b 1 1004
         \<and> genre_links_added empty_world w' 1 [14])
   \<and> sync_error_of (fault_at 2) 1 empty_world = None
   \<and> fetched (effects (sync_world_of (fault_at 2) 1 empty_world)) = [1]"
proof -
  have f2: "fault (fault_at 2) (calls empty_world + 1 + length (t_genre_ids movie_a)) \<noteq> None"
    by (simp add: fault_at_def movie_a_def)
  have f1: "fault (fault_at 1) (calls empty_world) = None"
    "fault (fault_at 1) (calls empty_world + 1 + length (t_genre_ids movie_b)) = None"
    "fault (fault_at 1) (calls empty_world + 2 + length (t_genre_ids movie_b)) = None"
    by (simp_all add: fault_at_def movie_b_def del: One_nat_def)
  have k: "kept_genre_ids (fault_at 1) (calls empty_world + 1) (t_genre_ids movie_b) = [14]"
    by (simp add: fault_at_def movie_b_def)
  have n: "now (fault_at 1) (calls empty_world + 2 + length (t_genre_ids movie_b)) = 1004"
    by (simp add: fault_at_def one_page_env_def movie_b_def)
  have ab: "find (\<lambda>r. m_tmdb_id r = t_id movie_b) (movies empty_world) = None" by simp
  have c: "\<forall>j. 1 \<le> j \<and> j \<le> effective_pages 1 \<longrightarrow> fetch_ok (fault_at 2) j"
  proof (intro allI impI)
    fix j :: int assume "1 \<le> j \<and> j \<le> effective_pages 1"
    then have "j = 1" by simp
    then show "fetch_ok (fault_at 2) j"
      by (simp add: fetch_ok_def fault_at_def one_page_env_def)
  qed
  have u: "[1..1] = [1::int]" by code_simp
  obtain w2 a2 u2 where s2: "sync_item (fault_at 2) movie_a (empty_world, 0, 0) = (w2, a2, u2)"
    by (metis surj_pair)
  obtain w1 a1 u1 where s1: "sync_item (fault_at 1) movie_b (empty_world, 0, 0) = (w1, a1, u1)"
    by (metis surj_pair)
  from per_item_failures [where e = "fault_at 2" and t = movie_a and w = empty_world
      and a = 0 and u = 0 and ts = "[]" and pages = 1] f2 c
  have p2: "a2 = 0 \<and> u2 = 0 \<and> movies w2 = [] \<and> movie_genres w2 = []"
    "sync_error_of (fault_at 2) 1 empty_world = None"
    "fetched (effects (sync_world_of (fault_at 2) 1 empty_world)) = [1]"
    by (simp_all add: s2 u)
  from per_item_failures [where e = "fault_at 1" and t = movie_b and w = empty_world
      and a = 0 and u = 0 and ts = "[]" and pages = 1, THEN conjunct1]
  have "db_ok empty_world \<and> fault (fault_at 1) (calls empty_world) = None
         \<and> fault (fault_at 1) (calls empty_world + 1 + length (t_genre_ids movie_b)) = None
         \<and> fault (fault_at 1) (calls empty_world + 2 + length (t_genre_ids movie_b)) = None
       \<longrightarrow> (case find (\<lambda>r. m_tmdb_id r = t_id movie_b) (movies empty_world) of
              None \<Rightarrow>
                a1 = 0 + 1 \<and> u1 = 0
                \<and> stored_as w1 movie_b (movie_seq empty_world + 1)
                     (now (fault_at 1) (calls empty_world + 2 + length (t_genre_ids movie_b)))
                \<and> genre_links_added empty_world w1 (movie_seq empty_world + 1)
                     (kept_genre_ids (fault_at 1) (calls empty_world + 1) (t_genre_ids movie_b))
            | Some ex \<Rightarrow>
                a1 = 0 \<and> u1 = 0 + 1
                \<and> stored_as w1 movie_b (m_id ex) (m_created_at ex)
                \<and> genre_links_added empty_world w1 (m_id ex)
                     (kept_genre_ids (fault_at 1) (calls empty_world + 1) (t_genre_ids movie_b)))"
    unfolding s1 prod.case by (rule conjunct2)
  with f1 have p1: "a1 = 1 \<and> u1 = 0 \<and> stored_as w1 movie_b 1 1004
         \<and> genre_links_added empty_world w1 1 [14]"
    unfolding k n ab by simp
  from p1 p2 show ?thesis by (simp add: s1 s2 del: One_nat_def)
qed

text \<open>
  C3 as stated fails for genres: the only genre lookup of the item fails (the second
  store call), and the item is inserted and counted as added, without that genre.
\<close>

theorem genre_failure_still_counted_counterexample:
  "fst (genreRepo_FindOrCreate (fault_at 1) 18 (getGenreName 18)
          (snd (langRepo_FindOrCreate (fault_at 1) ''en'' (getLanguageName ''en'') empty_world)))
     = Inl ''connection lost''
   \<and> (case sync_item (fault_at 1) movie_a (empty_world, 0, 0) of
        (w', a', u') \<Rightarrow> a' = 1 \<and> map m_tmdb_id (movies w') = [550] \<and> movie_genres w' = [])"
  by code_simp

subsection \<open>Upsert by external id\<close>

text \<open>
  C1, as the code has it. In a well-formed store (distinct internal ids, distinct
  external ids), an item whose external id already has a row, and whose language lookup,
  lookup by external id and write do not fail, is counted as updated and not as added;
  the table keeps its number of rows; exactly one row has that external id, with the
  internal id and the creation timestamp of the row that was there, every payload column
  holding the payload's value, the language reference that of the payload's language
  code, and the update timestamp the time of the write; rows of other external ids are
  untouched. The genres are not overwritten: the join table holds what it held before
  and a link from the row to each genre of the payload whose lookup did not fail.
  Upserting an absent external id and then the same external id again, with no store
  failure, leaves exactly one row of that external id, carrying the later payload, with
  the internal id and the creation timestamp given at the first upsert, and linked to
  the genres of both payloads.
\<close>

theorem sync_upsert_by_external_id:
  "(db_ok w \<and> find (\<lambda>r. m_tmdb_id r = t_id t) (movies w) = Some ex
      \<and> fault e (calls w) = None
      \<and> fault e (calls w + 1 + length (t_genre_ids t)) = None
      \<and> fault e (calls w + 2 + length (t_genre_ids t)) = None \<longrightarrow>
    (case sync_item e t (w, a, u) of (w', a', u') \<Rightarrow>
       a' = a \<and> u' = u + 1 \<and> length (movies w') = length (movies w)
       \<and> stored_as w' t (m_id ex) (m_created_at ex)
       \<and> filter (\<lambda>r. m_tmdb_id r \<noteq> t_id t) (movies w')
           = filter (\<lambda>r. m_tmdb_id r \<noteq> t_id t) (movies w)
       \<and> (\<forall>r\<in>set (movies w'). m_tmdb_id r = t_id t \<longrightarrow>
             m_updated_at r = now e (calls w + 2 + length (t_genre_ids t)))
       \<and> genre_links_added w w' (m_id ex)
            (kept_genre_ids e (calls w + 1) (t_genre_ids t))))
   \<and> (db_ok w \<and> find (\<lambda>r. m_tmdb_id r = t_id t) (movies w) = None
      \<and> t_id t' = t_id t \<and> (\<forall>n. fault e n = None) \<longrightarrow>
    (case sync_item e t (w, a, u) of (w1, a1, u1) \<Rightarrow>
       case sync_item e t' (w1, a1, u1) of (w2, a2, u2) \<Rightarrow>
         a2 = a + 1 \<and> u2 = u + 1 \<and> length (movies w2) = length (movies w) + 1
         \<and> stored_as w1 t (movie_seq w + 1) (now e (calls w + 2 + length (t_genre_ids t)))
         \<and> stored_as w2 t' (movie_seq w + 1)
              (now e (calls w + 2 + length (t_genre_ids t)))
         \<and> genre_links_added w w1 (movie_seq w + 1) (t_genre_ids t)
         \<and> genre_links_added w1 w2 (movie_seq w + 1) (t_genre_ids t')))"
proof (intro conjI impI)
  assume h: "db_ok w \<and> find (\<lambda>r. m_tmdb_id r = t_id t) (movies w) = Some ex
      \<and> fault e (calls w) = None
      \<and> fault e (calls w + 1 + length (t_genre_ids t)) = None
      \<and> fault e (calls w + 2 + length (t_genre_ids t)) = None"
  obtain w' a' u' where run: "sync_item e t (w, a, u) = (w', a', u')"
    by (metis surj_pair)
  from h have ok: "db_ok w" and ex: "find (\<lambda>r. m_tmdb_id r = t_id t) (movies w) = Some ex"
    and nf: "fault e (calls w) = None"
      "fault e (calls w + 1 + length (t_genre_ids t)) = None"
      "fault e (calls w + 2 + length (t_genre_ids t)) = None"
    by simp_all
  from sync_item_updates_existing [OF run ok ex nf] sync_item_links [OF run ok nf] ex
  show "case sync_item e t (w, a, u) of (w', a', u') \<Rightarrow>
       a' = a \<and> u' = u + 1 \<and> length (movies w') = length (movies w)
       \<and> stored_as w' t (m_id ex) (m_created_at ex)
       \<and> filter (\<lambda>r. m_tmdb_id r \<noteq> t_id t) (movies w')
           = filter (\<lambda>r. m_tmdb_id r \<noteq> t_id t) (movies w)
       \<and> (\<forall>r\<in>set (movies w'). m_tmdb_id r = t_id t \<longrightarrow>
             m_updated_at r = now e (calls w + 2 + length (t_genre_ids t)))
       \<and> genre_links_added w w' (m_id ex)
            (kept_genre_ids e (calls w + 1) (t_genre_ids t))"
    by (simp add: run)
next
  assume h: "db_ok w \<and> find (\<lambda>r. m_tmdb_id r = t_id t) (movies w) = None
      \<and> t_id t' = t_id t \<and> (\<forall>n. fault e n = None)"
  obtain w1 a1 u1 where r1: "sync_item e t (w, a, u) = (w1, a1, u1)"
    by (metis surj_pair)
  obtain w2 a2 u2 where r2: "sync_item e t' (w1, a1, u1) = (w2, a2, u2)"
    by (metis surj_pair)
  let ?c = "now e (calls w + 2 + length (t_genre_ids t))"
  from h have ok: "db_ok w" and ab: "find (\<lambda>r. m_tmdb_id r = t_id t) (movies w) = None"
    and nf: "\<forall>n. fault e n = None" and same: "t_id t' = t_id t"
    by simp_all
  have kept: "kept_genre_ids e n ids = ids" for n ids
    using kept_genre_ids_all [OF nf] .
  from nf sync_item_creates_absent [OF r1 ok ab]
  have first: "a1 = a + 1" "u1 = u" "length (movies w1) = length (movies w) + 1"
    "stored_as w1 t (movie_seq w + 1) ?c" "db_ok w1"
    by simp_all
  from nf sync_item_links [OF r1 ok] ab
  have l1: "genre_links_added w w1 (movie_seq w + 1) (t_genre_ids t)"
    by (simp add: kept)
  from first(4) obtain row where row: "filter (\<lambda>r. m_tmdb_id r = t_id t) (movies w1) = [row]"
     "m_id row = movie_seq w + 1" "m_created_at row = ?c"
    by (auto simp: stored_as_def split: list.splits)
  have fnd: "find (\<lambda>r. m_tmdb_id r = t_id t') (movies w1) = Some row"
    using find_of_filter [OF row(1)] same by simp
  from sync_item_updates_existing [OF r2 first(5) fnd] nf row(2,3)
  have second: "a2 = a1" "u2 = u1 + 1" "length (movies w2) = length (movies w1)"
    "stored_as w2 t' (movie_seq w + 1) ?c"
    by simp_all
  from nf sync_item_links [OF r2 first(5)] fnd row(2)
  have l2: "genre_links_added w1 w2 (movie_seq w + 1) (t_genre_ids t')"
    by (simp add: kept)
  have r2': "sync_item e t' (w1, a + 1, u) = (w2, a2, u2)"
    using r2 first(1,2) by simp
  from first second l1 l2
  show "case sync_item e t (w, a, u) of (w1, a1, u1) \<Rightarrow>
       case sync_item e t' (w1, a1, u1) of (w2, a2, u2) \<Rightarrow>
         a2 = a + 1 \<and> u2 = u + 1 \<and> length (movies w2) = length (movies w) + 1
         \<and> stored_as w1 t (movie_seq w + 1) ?c
         \<and> stored_as w2 t' (movie_seq w + 1) ?c
         \<and> genre_links_added w w1 (movie_seq w + 1) (t_genre_ids t)
         \<and> genre_links_added w1 w2 (movie_seq w + 1) (t_genre_ids t')"
    by (simp add: r1 r2')
qed

theorem sync_upsert_by_external_id_witness:
  "(case sync_item quiet_env movie_a_again (one_movie_world, 1, 0) of (w', a', u') \<Rightarrow>
      a' = 1 \<and> u' = 1 \<and> length (movies w') = 1 \<and> stored_as w' movie_a_again 1 1003
      \<and> genre_links_added one_movie_world w' 1 [53])
   \<and> (case sync_item quiet_env movie_a (empty_world, 0, 0) of (w1, a1, u1) \<Rightarrow>
       case sync_item quiet_env movie_a_again (w1, a1, u1) of (w2, a2, u2) \<Rightarrow>
         a2 = 1 \<and> u2 = 1 \<and> length (movies w2) = 1
         \<and> stored_as w1 movie_a 1 1003 \<and> stored_as w2 movie_a_again 1 1003
         \<and> genre_links_added empty_world w1 1 [18]
         \<and> genre_links_added w1 w2 1 [53])"
proof -
  have f: "fault quiet_env n = None" for n by (simp add: quiet_env_def)
  have ok1: "db_ok one_movie_world" by code_simp
  have ex: "find (\<lambda>r. m_tmdb_id r = t_id movie_a_again) (movies one_movie_world)
              = Some (hd (movies one_movie_world))" by code_simp
  have v: "m_id (hd (movies one_movie_world)) = 1"
    "m_created_at (hd (movies one_movie_world)) = 1003"
    "length (movies one_movie_world) = 1" by code_simp+
  have ab: "find (\<lambda>r. m_tmdb_id r = t_id movie_a) (movies empty_world) = None" by simp
  have same: "t_id movie_a_again = t_id movie_a" by (simp add: movie_a_again_def movie_a_def)
  have n: "now quiet_env (calls empty_world + 2 + length (t_genre_ids movie_a)) = 1003"
    "now quiet_env (Suc (Suc (length (t_genre_ids movie_a)))) = 1003"
    "now quiet_env (Suc (Suc (Suc 0))) = 1003"
    by (simp_all add: quiet_env_def movie_a_def)
  have g: "t_genre_ids movie_a = [18]" "t_genre_ids movie_a_again = [53]"
    by (simp_all add: movie_a_def movie_a_again_def)
  have k: "kept_genre_ids quiet_env m [53] = [53]" for m
    by (simp add: f)
  from sync_upsert_by_external_id
          [where e = quiet_env and w = one_movie_world and t = movie_a_again and a = 1
             and u = 0 and ex = "hd (movies one_movie_world)", THEN conjunct1, rule_format]
    ok1 ex f
  have a: "case sync_item quiet_env movie_a_again (one_movie_world, 1, 0) of (w', a', u') \<Rightarrow>
      a' = 1 \<and> u' = 1 \<and> length (movies w') = 1 \<and> stored_as w' movie_a_again 1 1003
      \<and> genre_links_added one_movie_world w' 1 [53]"
    by (auto simp: v g k split: prod.splits)
  from sync_upsert_by_external_id
          [where e = quiet_env and w = empty_world and t = movie_a and t' = movie_a_again
             and a = 0 and u = 0, THEN conjunct2, rule_format] ab same f
  have b: "case sync_item quiet_env movie_a (empty_world, 0, 0) of (w1, a1, u1) \<Rightarrow>
       case sync_item quiet_env movie_a_again (w1, a1, u1) of (w2, a2, u2) \<Rightarrow>
         a2 = 1 \<and> u2 = 1 \<and> length (movies w2) = 1
         \<and> stored_as w1 movie_a 1 1003 \<and> stored_as w2 movie_a_again 1 1003
         \<and> genre_links_added empty_world w1 1 [18]
         \<and> genre_links_added w1 w2 1 [53]"
    by (auto simp: n g split: prod.splits)
  from a b show ?thesis by blast
qed

text \<open>
  C1 as stated fails for the genres: the stored movie has genre 18, the payload of the
  second upsert has genre 53 only, and the movie read back after the upsert has both
  genres.
\<close>

theorem sync_upsert_keeps_old_genres_counterexample:
  "t_genre_ids movie_a_again = [53]
   \<and> (case sync_item quiet_env movie_a_again (one_movie_world, 1, 0) of (w', a', u') \<Rightarrow>
        a' = 1 \<and> u' = 1 \<and> movie_genres w' = [(1, 1), (1, 2)]
        \<and> (case repo_FindByID quiet_env 1 w' of
             (Inr m, w'') \<Rightarrow>
               m_tmdb_id m = 550 \<and> map genre_tmdb_id (m_genres m) = [18, 53]
           | (Inl err, w'') \<Rightarrow> False))"
  by code_simp

subsection \<open>Requests for one movie\<close>

lemma DeleteFile_frame:
  "movies (snd (DeleteFile e b p w)) = movies w"
  "movie_seq (snd (DeleteFile e b p w)) = movie_seq w"
  by (auto simp: DeleteFile_def Let_def tick_def split: option.splits)

lemma remove_image_frame:
  "movies (remove_image e s p w) = movies w"
  "movie_seq (remove_image e s p w) = movie_seq w"
  by (simp_all add: remove_image_def Let_def DeleteFile_frame)

lemma repo_FindByID_cases:
  "repo_FindByID e mid w = (r, w') \<Longrightarrow>
     w' = tick w \<and>
     (case r of
        Inl err \<Rightarrow> fault e (calls w) \<noteq> None \<or> find (\<lambda>r. m_id r = mid) (movies w) = None
      | Inr m \<Rightarrow> fault e (calls w) = None \<and>
          (\<exists>row. find (\<lambda>r. m_id r = mid) (movies w) = Some row
             \<and> m_id m = m_id row \<and> m_created_at m = m_created_at row
             \<and> m_tmdb_id m = m_tmdb_id row))"
  by (auto simp: repo_FindByID_def split: option.splits)

lemma repo_FindByID_missing:
  assumes "\<not> list_ex (\<lambda>r. m_id r = mid) (movies w)"
  shows "\<exists>err. repo_FindByID e mid w = (Inl err, tick w)"
proof -
  have "find (\<lambda>r. m_id r = mid) (movies w) = None"
    using assms by (simp add: find_None_iff list_ex_iff)
  then show ?thesis
    by (simp add: repo_FindByID_def split: option.splits)
qed

lemma convertRequestToMovie_movies:
  "movies (snd (convertRequestToMovie e req w)) = movies w"
proof (cases "rq_original_language req = []")
  case True
  then show ?thesis by (simp add: convertRequestToMovie_def)
next
  case False
  obtain r1 w1 where a: "langRepo_FindByCode e (rq_original_language req) w = (r1, w1)"
    by (metis surj_pair)
  obtain r2 w2 where b: "langRepo_FindOrCreate e (rq_original_language req)
       (getLanguageName (rq_original_language req)) w1 = (r2, w2)"
    by (metis surj_pair)
  from langRepo_FindByCode_frame [OF a] langRepo_FindOrCreate_frame [OF b]
  have m: "movies w1 = movies w" "movies w2 = movies w"
    by (simp_all add: same_movies_def)
  show ?thesis
    using False a b m
    by (auto simp: convertRequestToMovie_def split: sum.splits option.splits prod.splits)
qed

text \<open>
  C6, as the code has it. For a well-formed id that no stored movie has, the handler
  of \<open>GET /movies/{id}\<close> answers 404, while the handlers of \<open>PUT /movies/{id}\<close> (with
  a body that parses) and of \<open>DELETE /movies/{id}\<close> answer 500: they report every
  error of the service, the missing movie included, as an internal server error.
\<close>

theorem missing_movie_status:
  assumes "ParseUint32 idParam = Some mid"
    and "\<not> list_ex (\<lambda>r. m_id r = mid) (movies w)"
  shows "http_status (fst (handler_GetMovieByID e idParam w)) = 404
     \<and> http_status (fst (handler_UpdateMovie e s idParam (Some req) w)) = 500
     \<and> http_status (fst (handler_DeleteMovie e s idParam w)) = 500"
proof -
  from repo_FindByID_missing [OF assms(2)] obtain err where
    g: "repo_FindByID e mid w = (Inl err, tick w)" by blast
  have get: "http_status (fst (handler_GetMovieByID e idParam w)) = 404"
    by (simp add: handler_GetMovieByID_def assms(1) GetMovieByID_def g ErrorResponse_def)
  have del: "http_status (fst (handler_DeleteMovie e s idParam w)) = 500"
    by (simp add: handler_DeleteMovie_def assms(1) DeleteMovie_def g ErrorResponse_def)
  obtain mv w1 where c: "convertRequestToMovie e req w = (mv, w1)"
    by (metis surj_pair)
  have "movies w1 = movies w"
    using convertRequestToMovie_movies [of e req w] c by simp
  with assms(2) have "\<not> list_ex (\<lambda>r. m_id r = mid) (movies w1)" by simp
  from repo_FindByID_missing [OF this] obtain err1 where
    g1: "repo_FindByID e mid w1 = (Inl err1, tick w1)" by blast
  have put: "http_status (fst (handler_UpdateMovie e s idParam (Some req) w)) = 500"
    by (simp add: handler_UpdateMovie_def assms(1) c UpdateMovie_def g1 ErrorResponse_def)
  from get put del show ?thesis by simp
qed

theorem missing_movie_status_witness:
  "http_status (fst (handler_GetMovieByID quiet_env ''7'' one_movie_world)) = 404
   \<and> http_status (fst (handler_UpdateMovie quiet_env minio_service ''7'' (Some request_a)
        one_movie_world)) = 500
   \<and> http_status (fst (handler_DeleteMovie quiet_env minio_service ''7'' one_movie_world)) = 500"
proof -
  have p: "ParseUint32 ''7'' = Some 7" by code_simp
  have m: "\<not> list_ex (\<lambda>r. m_id r = 7) (movies one_movie_world)" by code_simp
  from missing_movie_status [OF p m] show ?thesis by blast
qed

text \<open>
  C6 as stated fails for \<open>PUT\<close> and \<open>DELETE\<close>: in the empty store, id 7 is well formed
  and has no movie, and both handlers answer 500, not 404.
\<close>

theorem missing_movie_put_delete_counterexample:
  "ParseUint32 ''7'' = Some 7 \<and> movies empty_world = []
   \<and> http_status (fst (handler_UpdateMovie quiet_env minio_service ''7'' (Some request_a)
        empty_world)) = 500
   \<and> http_status (fst (handler_DeleteMovie quiet_env minio_service ''7'' empty_world)) = 500"
  by code_simp

text \<open>
  C10. In a well-formed store, an update through \<open>UpdateMovie\<close> that succeeds leaves
  exactly one row with the requested internal id; that row keeps the creation
  timestamp and the external id it had, whatever the supplied struct says for its id,
  creation timestamp and external id, and holds the supplied values in its other
  columns; the table keeps its number of rows and the rows of other ids are untouched.
  An update that fails leaves the movie table as it was.
\<close>

theorem UpdateMovie_keeps_identity:
  "db_ok w \<longrightarrow>
     (case UpdateMovie e s mid m w of
        (Inl err, w') \<Rightarrow> movies w' = movies w
      | (Inr written, w') \<Rightarrow>
          updated_as w w' mid m
          \<and> length (movies w') = length (movies w)
          \<and> filter (\<lambda>r. m_id r \<noteq> mid) (movies w') = filter (\<lambda>r. m_id r \<noteq> mid) (movies w)
          \<and> m_id written = mid)"
proof
  assume ok: "db_ok w"
  obtain r0 w1 where f: "repo_FindByID e mid w = (r0, w1)" by (metis surj_pair)
  note fc = repo_FindByID_cases [OF f]
  show "case UpdateMovie e s mid m w of
        (Inl err, w') \<Rightarrow> movies w' = movies w
      | (Inr written, w') \<Rightarrow>
          updated_as w w' mid m
          \<and> length (movies w') = length (movies w)
          \<and> filter (\<lambda>r. m_id r \<noteq> mid) (movies w') = filter (\<lambda>r. m_id r \<noteq> mid) (movies w)
          \<and> m_id written = mid"
  proof (cases r0)
    case (Inl err)
    with f fc show ?thesis by (simp add: UpdateMovie_def)
  next
    case (Inr existing)
    with fc obtain row where row: "find (\<lambda>r. m_id r = mid) (movies w) = Some row"
      "m_created_at existing = m_created_at row" "m_tmdb_id existing = m_tmdb_id row"
      by auto
    have rin: "row \<in> set (movies w)" "m_id row = mid"
      using find_SomeD [OF row(1)] by simp_all
    let ?wa = "if m_poster_path m \<noteq> [] \<and> m_poster_path m \<noteq> m_poster_path existing
               then remove_image e s (m_poster_path existing) w1 else w1"
    let ?wb = "if m_backdrop_path m \<noteq> [] \<and> m_backdrop_path m \<noteq> m_backdrop_path existing
               then remove_image e s (m_backdrop_path existing) ?wa else ?wa"
    let ?w2 = "if has_minio s then ?wb else w1"
    let ?mv = "m\<lparr>m_id := mid, m_created_at := m_created_at existing,
                  m_tmdb_id := m_tmdb_id existing\<rparr>"
    have w1: "movies w1 = movies w" using fc by simp
    have w2: "movies ?w2 = movies w"
      by (simp add: remove_image_frame w1)
    have um: "UpdateMovie e s mid m w = repo_Update e ?mv ?w2"
      using f Inr by (simp add: UpdateMovie_def Let_def)
    obtain ru w' where u: "repo_Update e ?mv ?w2 = (ru, w')" by (metis surj_pair)
    show ?thesis
    proof (cases ru)
      case (Inl err)
      with u have "w' = tick ?w2" by (simp add: repo_Update_err)
      then have "movies w' = movies w" using w2 by simp
      with Inl u um show ?thesis by simp
    next
      case isr: (Inr written)
      have p1: "row \<in> set (movies ?w2)" using rin(1) w2 by simp
      have p2: "m_tmdb_id row = m_tmdb_id ?mv" using row(3) by simp
      have p3: "m_id row = m_id ?mv" using rin(2) by simp
      have uu: "repo_Update e ?mv ?w2 = (Inr written, w')" using u isr by simp
      note ru = repo_Update_ok [OF uu p1 p2 p3]
      have s1: "written = ?mv\<lparr>m_updated_at := now e (calls ?w2)\<rparr>" using ru by blast
      have "movies w' = map (\<lambda>r. if m_id r = m_id ?mv then written\<lparr>m_genres := []\<rparr> else r)
                          (movies ?w2)"
        using ru by blast
      then have mw: "movies w' = map (\<lambda>r. if m_id r = m_id row then written\<lparr>m_genres := []\<rparr> else r)
                          (movies w)"
        using rin(2) by (simp only: w2) simp
      let ?new = "written\<lparr>m_genres := []\<rparr>"
      have new: "m_id ?new = m_id row" "m_created_at ?new = m_created_at row"
        "m_tmdb_id ?new = m_tmdb_id row" "same_supplied ?new m" "m_id written = mid"
        using s1 row(2,3) rin(2) by (simp_all add: same_supplied_def)
      have dist: "distinct (map m_id (movies w))" using ok by (simp add: db_ok_def)
      note rf = replace_row_filter [OF dist dist rin(1) refl new(1)]
      have "updated_as w w' mid m"
        using rf new row(1) rin(2) by (simp add: updated_as_def mw)
      moreover have "filter (\<lambda>r. m_id r \<noteq> mid) (movies w')
                       = filter (\<lambda>r. m_id r \<noteq> mid) (movies w)"
        using rf rin(2) by (simp add: mw)
      ultimately show ?thesis
        using um uu new(5) by (simp add: mw)
    qed
  qed
qed

theorem UpdateMovie_keeps_identity_witness:
  "(case UpdateMovie quiet_env minio_service 1 supplied_movie one_movie_world of
      (Inl err, w') \<Rightarrow> False
    | (Inr written, w') \<Rightarrow>
        map m_id (movies w') = [1] \<and> map m_tmdb_id (movies w') = [550]
        \<and> map m_created_at (movies w') = map m_created_at (movies one_movie_world)
        \<and> map m_title (movies w') = [''Fight Club (director's cut)'']
        \<and> updated_as one_movie_world w' 1 supplied_movie)"
proof -
  have ok: "db_ok one_movie_world" by code_simp
  have v: "case UpdateMovie quiet_env minio_service 1 supplied_movie one_movie_world of
      (Inl err, w') \<Rightarrow> False
    | (Inr written, w') \<Rightarrow>
        map m_id (movies w') = [1] \<and> map m_tmdb_id (movies w') = [550]
        \<and> map m_created_at (movies w') = map m_created_at (movies one_movie_world)
        \<and> map m_title (movies w') = [''Fight Club (director's cut)'']"
    by code_simp
  from UpdateMovie_keeps_identity [where w = one_movie_world and e = quiet_env
      and s = minio_service and mid = 1 and m = supplied_movie, rule_format, OF ok] v
  show ?thesis
    by (auto split: prod.splits sum.splits)
qed

subsection \<open>Monthly chart\<close>

lemma those_map_all:
  "(\<forall>x\<in>set xs. f x \<noteq> None) \<Longrightarrow> those (map f xs) = Some (map (\<lambda>x. the (f x)) xs)"
  by (induction xs) auto

lemma those_map_none: "x \<in> set xs \<Longrightarrow> f x = None \<Longrightarrow> those (map f xs) = None"
  by (induction xs) (auto split: option.splits)

lemma fold_upd_other:
  "m \<notin> fst ` set xs \<Longrightarrow> fold (\<lambda>(k, c) mm. mm(k := c)) xs f m = f m"
  by (induction xs arbitrary: f) auto

lemma month_counts_Some:
  assumes "\<forall>r\<in>set (month_rows ys rows). cast_integer (month_key r) \<noteq> None"
  shows "\<exists>mc. month_counts ys rows = Some mc
     \<and> fst ` set mc = (\<lambda>r. the (cast_integer (month_key r))) ` set (month_rows ys rows)"
proof -
  let ?sel = "month_rows ys rows"
  let ?keys = "remdups (map month_key ?sel)"
  let ?f = "\<lambda>k. map_option (\<lambda>m. (m, int (length (filter (\<lambda>r. month_key r = k) ?sel))))
                    (cast_integer k)"
  have ok: "\<forall>k\<in>set ?keys. ?f k \<noteq> None"
    using assms by auto
  have fs: "fst (the (?f k)) = the (cast_integer k)" if "k \<in> set ?keys" for k
    using ok that by (cases "cast_integer k") auto
  have mc: "month_counts ys rows = Some (sort_key fst (map (\<lambda>k. the (?f k)) ?keys))"
    unfolding month_counts_def Let_def those_map_all [OF ok] by simp
  have "fst ` set (sort_key fst (map (\<lambda>k. the (?f k)) ?keys))
          = (\<lambda>k. fst (the (?f k))) ` set ?keys"
    by (simp add: image_image)
  also have "\<dots> = (\<lambda>k. the (cast_integer k)) ` set ?keys"
    using fs by (intro image_cong refl) 
  also have "\<dots> = (\<lambda>r. the (cast_integer (month_key r))) ` set ?sel"
    by (simp add: image_image)
  finally show ?thesis using mc by blast
qed

lemma month_counts_None:
  assumes "r \<in> set (month_rows ys rows)" "cast_integer (month_key r) = None"
  shows "month_counts ys rows = None"
proof -
  let ?sel = "month_rows ys rows"
  let ?f = "\<lambda>k. map_option (\<lambda>m. (m, int (length (filter (\<lambda>r. month_key r = k) ?sel))))
                    (cast_integer k)"
  have "month_key r \<in> set (remdups (map month_key ?sel))" using assms(1) by simp
  moreover have "?f (month_key r) = None" using assms(2) by simp
  ultimately have "those (map ?f (remdups (map month_key ?sel))) = None"
    by (rule those_map_none)
  then show ?thesis by (simp add: month_counts_def Let_def)
qed

lemma month_entries:
  fixes monthMap :: "int \<Rightarrow> int"
  assumes entries_def:
    "entries = map (\<lambda>(i, month). \<lparr>cc_label = month, cc_count = monthMap (int i + 1)\<rparr>)
                        (enumerate 0 month_names)"
  shows "length entries = 12" "map cc_label entries = month_names"
    "i < 12 \<Longrightarrow> cc_count (entries ! i) = monthMap (int i + 1)"
proof -
  have l: "length month_names = 12" by (simp add: month_names_def)
  show "length entries = 12" by (simp add: entries_def l)
  have "map cc_label entries = map snd (enumerate 0 month_names)"
    by (simp add: entries_def case_prod_beta o_def)
  then show "map cc_label entries = month_names" by simp
  show "cc_count (entries ! i) = monthMap (int i + 1)" if "i < 12"
    using that l by (simp add: entries_def nth_enumerate_eq)
qed

text \<open>
  C7, as the code has it. The query selects the rows whose release date begins with the
  four digits of the year and has at least 7 characters (\<open>month_rows\<close>), and reads the
  6th and 7th characters of each (\<open>month_key\<close>) as an integer, the month. For a year
  from 1900 to 2100, when the store does not fail and these two characters read as an
  integer in every selected row, the operation returns 12 entries, labelled by the 12
  months in calendar order; the entry of a month that no selected row is read as has
  count 0, and when no row is selected all 12 counts are 0. When the two characters of
  some selected row do not read as an integer, the query fails and the operation
  returns an error, whatever the year.
\<close>

theorem GetMoviesByMonth_twelve_months:
  "(1900 \<le> year \<and> year \<le> 2100 \<and> fault e (calls w) = None
      \<and> (\<forall>r\<in>set (month_rows (year_string year) (movies w)).
            cast_integer (month_key r) \<noteq> None) \<longrightarrow>
    (case fst (GetMoviesByMonth e year w) of
       Inl err \<Rightarrow> False
     | Inr entries \<Rightarrow>
         length entries = 12 \<and> map cc_label entries = month_names
         \<and> (\<forall>i<12. (\<forall>r\<in>set (month_rows (year_string year) (movies w)).
                        cast_integer (month_key r) \<noteq> Some (int i + 1))
                    \<longrightarrow> cc_count (entries ! i) = 0)
         \<and> (month_rows (year_string year) (movies w) = []
              \<longrightarrow> map cc_count entries = replicate 12 0)))
   \<and> ((\<exists>r\<in>set (month_rows (year_string year) (movies w)).
          cast_integer (month_key r) = None) \<longrightarrow>
       (case fst (GetMoviesByMonth e year w) of Inl err \<Rightarrow> True | Inr entries \<Rightarrow> False))"
proof (intro conjI impI)
  assume h: "1900 \<le> year \<and> year \<le> 2100 \<and> fault e (calls w) = None
      \<and> (\<forall>r\<in>set (month_rows (year_string year) (movies w)).
            cast_integer (month_key r) \<noteq> None)"
  let ?sel = "month_rows (year_string year) (movies w)"
  from h month_counts_Some [of "year_string year" "movies w"] obtain mc where
    mc: "month_counts (year_string year) (movies w) = Some mc"
    and keys: "fst ` set mc = (\<lambda>r. the (cast_integer (month_key r))) ` set ?sel"
    by blast
  define monthMap where "monthMap = fold (\<lambda>(m, c) mm. mm(m := c)) mc (\<lambda>_. 0::int)"
  define entries where
    "entries = map (\<lambda>(i, month). \<lparr>cc_label = month, cc_count = monthMap (int i + 1)\<rparr>)
                   (enumerate 0 month_names)"
  have res: "fst (GetMoviesByMonth e year w) = Inr entries"
    using h mc by (simp add: GetMoviesByMonth_def repo_GetMoviesByMonth_def Let_def
        entries_def monthMap_def)
  note me = month_entries [OF entries_def]
  have zero: "cc_count (entries ! i) = 0"
    if i: "i < 12" and no: "\<forall>r\<in>set ?sel. cast_integer (month_key r) \<noteq> Some (int i + 1)" for i
  proof -
    have "int i + 1 \<notin> fst ` set mc"
    proof
      assume "int i + 1 \<in> fst ` set mc"
      with keys obtain r where r: "r \<in> set ?sel" "int i + 1 = the (cast_integer (month_key r))"
        by auto
      with h have "cast_integer (month_key r) = Some (int i + 1)" by auto
      with no r(1) show False by blast
    qed
    then have "monthMap (int i + 1) = 0"
      unfolding monthMap_def by (simp add: fold_upd_other)
    with me(3) [OF i] show ?thesis by simp
  qed
  have allz: "map cc_count entries = replicate 12 0" if e: "?sel = []"
  proof (rule nth_equalityI)
    show "length (map cc_count entries) = length (replicate 12 (0::int))"
      using me(1) by simp
    fix i assume "i < length (map cc_count entries)"
    then have i: "i < 12" using me(1) by simp
    with zero [OF i] e me(1) show "map cc_count entries ! i = replicate 12 0 ! i"
      by simp
  qed
  from me(1,2) zero allz
  show "case fst (GetMoviesByMonth e year w) of
       Inl err \<Rightarrow> False
     | Inr entries \<Rightarrow>
         length entries = 12 \<and> map cc_label entries = month_names
         \<and> (\<forall>i<12. (\<forall>r\<in>set (month_rows (year_string year) (movies w)).
                        cast_integer (month_key r) \<noteq> Some (int i + 1))
                    \<longrightarrow> cc_count (entries ! i) = 0)
         \<and> (month_rows (year_string year) (movies w) = []
              \<longrightarrow> map cc_count entries = replicate 12 0)"
    unfolding res by simp
next
  assume "\<exists>r\<in>set (month_rows (year_string year) (movies w)).
          cast_integer (month_key r) = None"
  then obtain r where "r \<in> set (month_rows (year_string year) (movies w))"
    "cast_integer (month_key r) = None" by blast
  from month_counts_None [OF this]
  show "case fst (GetMoviesByMonth e year w) of Inl err \<Rightarrow> True | Inr entries \<Rightarrow> False"
    by (simp add: GetMoviesByMonth_def repo_GetMoviesByMonth_def split: option.splits)
qed

theorem GetMoviesByMonth_twelve_months_witness:
  "(case fst (GetMoviesByMonth quiet_env 1999 one_movie_world) of
      Inl err \<Rightarrow> False
    | Inr entries \<Rightarrow> length entries = 12 \<and> map cc_label entries = month_names
        \<and> cc_count (entries ! 0) = 0)
   \<and> (case fst (GetMoviesByMonth quiet_env 2024 empty_world) of
      Inl err \<Rightarrow> False
    | Inr entries \<Rightarrow> length entries = 12 \<and> map cc_label entries = month_names
        \<and> map cc_count entries = replicate 12 0)
   \<and> (case fst (GetMoviesByMonth quiet_env 2024
                   (snd (repo_Create quiet_env odd_date_movie empty_world))) of
        Inl err \<Rightarrow> True | Inr entries \<Rightarrow> False)"
proof -
  have f: "fault quiet_env n = None" for n by (simp add: quiet_env_def)
  have rows: "map m_release_date (month_rows (year_string 1999) (movies one_movie_world))
                = [''1999-10-15'']"
    by code_simp
  have a1: "\<forall>r\<in>set (month_rows (year_string 1999) (movies one_movie_world)).
            cast_integer (month_key r) \<noteq> None"
    by code_simp
  have a2: "\<forall>r\<in>set (month_rows (year_string 1999) (movies one_movie_world)).
            cast_integer (month_key r) \<noteq> Some (int 0 + 1)"
    by code_simp
  have b1: "month_rows (year_string 2024) (movies empty_world) = []"
    by (simp add: month_rows_def)
  have c1: "\<exists>r\<in>set (month_rows (year_string 2024)
                (movies (snd (repo_Create quiet_env odd_date_movie empty_world)))).
          cast_integer (month_key r) = None"
    by code_simp
  from GetMoviesByMonth_twelve_months
         [where year = 1999 and e = quiet_env and w = one_movie_world, THEN conjunct1] f a1 a2
  have a: "case fst (GetMoviesByMonth quiet_env 1999 one_movie_world) of
      Inl err \<Rightarrow> False
    | Inr entries \<Rightarrow> length entries = 12 \<and> map cc_label entries = month_names
        \<and> cc_count (entries ! 0) = 0"
    by (auto split: sum.splits)
  from GetMoviesByMonth_twelve_months
         [where year = 2024 and e = quiet_env and w = empty_world, THEN conjunct1] f b1
  have b: "case fst (GetMoviesByMonth quiet_env 2024 empty_world) of
      Inl err \<Rightarrow> False
    | Inr entries \<Rightarrow> length entries = 12 \<and> map cc_label entries = month_names
        \<and> map cc_count entries = replicate 12 0"
    by (auto split: sum.splits)
  from GetMoviesByMonth_twelve_months
         [where year = 2024 and e = quiet_env
            and w = "snd (repo_Create quiet_env odd_date_movie empty_world)", THEN conjunct2] c1
  have c: "case fst (GetMoviesByMonth quiet_env 2024
                   (snd (repo_Create quiet_env odd_date_movie empty_world))) of
        Inl err \<Rightarrow> True | Inr entries \<Rightarrow> False"
    by blast
  from a b c show ?thesis by blast
qed

text \<open>
  C7 as stated fails: 2024 is a valid year and the store does not fail; after a movie
  with the release date \<open>2024-1-05\<close> has been created, the operation returns an error
  and no entries.
\<close>

theorem GetMoviesByMonth_month_text_counterexample:
  "(1900::int) \<le> 2024 \<and> (2024::int) \<le> 2100
   \<and> (case repo_Create quiet_env odd_date_movie empty_world of
        (Inl err, w) \<Rightarrow> False
      | (Inr m, w) \<Rightarrow>
          map m_release_date (movies w) = [''2024-1-05'']
          \<and> fst (GetMoviesByMonth quiet_env 2024 w)
              = Inl ''invalid input syntax for type integer'')"
  by code_simp

end
